theory Spec2Isabelle
  imports Main
begin

section \<open>The Python runtime as the script sees it\<close>

text \<open>
  The script is a sequence of calls into the operating system and the Python library.
  A value read from a JSON document is a \<open>pyval\<close>; a dictionary is an association
  list in insertion order, as Python keeps it. A character is a code point below 256.
  A float is kept by the text that \<open>repr\<close> gives for it: printing is all the script
  does with one.
\<close>

datatype pyval =
    PyNone
  | PyBool bool
  | PyInt int
  | PyFloat string
  | PyStr string
  | PyList "pyval list"
  | PyDict "(string \<times> pyval) list"

text \<open>
  The exception classes the script can meet, with the base class of each.
  \<open>IOError\<close> is another name of \<open>OSError\<close>; \<open>socket.timeout\<close> is
  \<open>TimeoutError\<close>; \<open>RecursionError\<close> is what the interpreter raises at its
  depth limit.
\<close>

datatype exn_class =
    OSError | FileNotFoundError | PermissionError | TimeoutError | URLError | HTTPError
  | ValueError | JSONDecodeError | UnicodeDecodeError
  | LookupError | KeyError | IndexError
  | TypeError | AttributeError | UnboundLocalError | RecursionError

datatype exn = Exn exn_class string

fun exn_cls :: "exn \<Rightarrow> exn_class" where
  "exn_cls (Exn c s) = c"

fun exn_str :: "exn \<Rightarrow> string" where
  "exn_str (Exn c s) = s"

fun base :: "exn_class \<Rightarrow> exn_class option" where
  "base FileNotFoundError = Some OSError"
| "base PermissionError = Some OSError"
| "base TimeoutError = Some OSError"
| "base URLError = Some OSError"
| "base HTTPError = Some URLError"
| "base JSONDecodeError = Some ValueError"
| "base UnicodeDecodeError = Some ValueError"
| "base KeyError = Some LookupError"
| "base IndexError = Some LookupError"
| "base c = None"

definition issubclass :: "exn_class \<Rightarrow> exn_class \<Rightarrow> bool" where
  "issubclass c d =
     (c = d \<or> (case base c of None \<Rightarrow> False | Some b \<Rightarrow> b = d \<or> base b = Some d))"

text \<open>What a call does: it returns, it ends the process (\<open>sys.exit\<close>), or it raises.\<close>

datatype 'a result = Return 'a | Exit int | Raise exn

text \<open>The process state: the global flag \<open>DEBUG\<close> and the lines printed so far.\<close>

record world =
  DEBUG :: bool
  stdout :: "string list"

definition print :: "string \<Rightarrow> world \<Rightarrow> world" where
  "print s w = w\<lparr>stdout := stdout w @ [s]\<rparr>"

definition bind :: "'a result \<times> world \<Rightarrow> ('a \<Rightarrow> world \<Rightarrow> 'b result \<times> world) \<Rightarrow> 'b result \<times> world" where
  "bind m f =
     (case m of
        (Return x, w) \<Rightarrow> f x w
      | (Exit c, w) \<Rightarrow> (Exit c, w)
      | (Raise e, w) \<Rightarrow> (Raise e, w))"

subsection \<open>Text\<close>

definition nl :: char where
  "nl = CHR 0x0A"

definition sq :: char where
  "sq = CHR 0x27"

definition dq :: char where
  "dq = CHR 0x22"

definition digit :: "nat \<Rightarrow> char" where
  "digit n = ''0123456789abcdef'' ! n"

function show_nat :: "nat \<Rightarrow> string" where
  "show_nat n = (if n < 10 then [digit n] else show_nat (n div 10) @ [digit (n mod 10)])"
  by pat_completeness auto
termination
  by (relation "measure id") auto

declare show_nat.simps [simp del]

definition show_int :: "int \<Rightarrow> string" where
  "show_int i = (if i < 0 then CHR ''-'' # show_nat (nat (- i)) else show_nat (nat i))"

fun join :: "string \<Rightarrow> string list \<Rightarrow> string" where
  "join sep [] = []"
| "join sep [x] = x"
| "join sep (x # y # ys) = x @ sep @ join sep (y # ys)"

text \<open>\<open>repr\<close> of a string, as CPython writes it.\<close>

definition printable :: "char \<Rightarrow> bool" where
  "printable c =
     (let n = (of_char c :: nat)
      in 32 \<le> n \<and> n \<noteq> 127 \<and> \<not> (128 \<le> n \<and> n \<le> 160) \<and> n \<noteq> 173)"

definition escape :: "char \<Rightarrow> char \<Rightarrow> string" where
  "escape q c =
     (if c = q \<or> c = CHR 0x5C then [CHR 0x5C, c]
      else if c = CHR 0x09 then [CHR 0x5C, CHR ''t'']
      else if c = CHR 0x0A then [CHR 0x5C, CHR ''n'']
      else if c = CHR 0x0D then [CHR 0x5C, CHR ''r'']
      else if printable c then [c]
      else [CHR 0x5C, CHR ''x'', digit ((of_char c :: nat) div 16), digit ((of_char c :: nat) mod 16)])"

definition repr_str :: "string \<Rightarrow> string" where
  "repr_str s =
     (let q = (if sq \<in> set s \<and> dq \<notin> set s then dq else sq)
      in [q] @ concat (map (escape q) s) @ [q])"

fun repr :: "pyval \<Rightarrow> string" where
  "repr PyNone = ''None''"
| "repr (PyBool b) = (if b then ''True'' else ''False'')"
| "repr (PyInt i) = show_int i"
| "repr (PyFloat t) = t"
| "repr (PyStr s) = repr_str s"
| "repr (PyList xs) = ''['' @ join '', '' (map repr xs) @ '']''"
| "repr (PyDict kvs) =
     ''{'' @ join '', '' (map (\<lambda>kv. repr_str (fst kv) @ '': '' @ repr (snd kv)) kvs) @ ''}''"

fun str :: "pyval \<Rightarrow> string" where
  "str (PyStr s) = s"
| "str v = repr v"


text \<open>Indexing a list: a negative index counts from the end, one out of range raises.\<close>

definition py_index :: "'a list \<Rightarrow> int \<Rightarrow> exn + 'a" where
  "py_index xs i =
     (if 0 \<le> i \<and> i < int (length xs) then Inr (xs ! nat i)
      else if i < 0 \<and> - int (length xs) \<le> i then Inr (xs ! nat (int (length xs) + i))
      else Inl (Exn IndexError ''list index out of range''))"

text \<open>Looking a key up in a dictionary; \<open>d[k] = v\<close> keeps the place of a key already there.\<close>

definition dict_getitem :: "(string \<times> 'v) list \<Rightarrow> string \<Rightarrow> exn + 'v" where
  "dict_getitem d k =
     (case map_of d k of None \<Rightarrow> Inl (Exn KeyError (repr_str k)) | Some v \<Rightarrow> Inr v)"

fun dict_setitem :: "(string \<times> 'v) list \<Rightarrow> string \<Rightarrow> 'v \<Rightarrow> (string \<times> 'v) list" where
  "dict_setitem [] k v = [(k, v)]"
| "dict_setitem (p # ps) k v = (if fst p = k then (k, v) # ps else p # dict_setitem ps k v)"

fun contains_str :: "string \<Rightarrow> string \<Rightarrow> bool" where
  "contains_str [] p = (p = [])"
| "contains_str (c # cs) p = (take (length p) (c # cs) = p \<or> contains_str cs p)"

text \<open>\<open>k in v\<close>, \<open>v[k]\<close>, \<open>v[k] = x\<close> and \<open>v.items ()\<close> for a string \<open>k\<close> and any value \<open>v\<close>.\<close>

fun py_contains :: "pyval \<Rightarrow> string \<Rightarrow> exn + bool" where
  "py_contains (PyDict kvs) k = Inr (k \<in> set (map fst kvs))"
| "py_contains (PyList xs) k = Inr (PyStr k \<in> set xs)"
| "py_contains (PyStr s) k = Inr (contains_str s k)"
| "py_contains v k = Inl (Exn TypeError ''argument is not iterable'')"

fun py_getitem :: "pyval \<Rightarrow> string \<Rightarrow> exn + pyval" where
  "py_getitem (PyDict kvs) k = dict_getitem kvs k"
| "py_getitem (PyList xs) k = Inl (Exn TypeError ''list indices must be integers or slices, not str'')"
| "py_getitem (PyStr s) k = Inl (Exn TypeError ''string indices must be integers'')"
| "py_getitem v k = Inl (Exn TypeError ''object is not subscriptable'')"

fun py_setitem :: "pyval \<Rightarrow> string \<Rightarrow> pyval \<Rightarrow> exn + (string \<times> pyval) list" where
  "py_setitem (PyDict kvs) k x = Inr (dict_setitem kvs k x)"
| "py_setitem (PyList xs) k x = Inl (Exn TypeError ''list indices must be integers or slices, not str'')"
| "py_setitem v k x = Inl (Exn TypeError ''object does not support item assignment'')"

fun py_items :: "pyval \<Rightarrow> exn + (string \<times> pyval) list" where
  "py_items (PyDict kvs) = Inr kvs"
| "py_items v = Inl (Exn AttributeError ''object has no attribute items'')"

subsection \<open>The operating system and the library\<close>

text \<open>
  The interface table of the operating system, as \<open>netifaces\<close> reads it: each interface
  with its address families, each family with its address records (\<open>addr\<close>,
  \<open>netmask\<close>, \<open>peer\<close>, \<open>broadcast\<close>). One run of the script sees one table.
\<close>

type_synonym address = "(string \<times> string) list"

type_synonym families = "(int \<times> address list) list"

record connection =
  conn_read :: "exn + string"
  content_charset :: "string option"

text \<open>
  What the script cannot compute by itself is a field of \<open>env\<close>: the interface table,
  the file system (\<open>open\<close>, then \<open>read\<close>), \<open>json.loads\<close>,
  \<open>urllib.parse.urlencode\<close>, \<open>urllib.request.urlopen\<close>, \<open>bytes.decode\<close>
  and \<open>urllib.parse.unquote\<close>.
\<close>

record env =
  iftable :: "(string \<times> families) list"
  open_file :: "string \<Rightarrow> exn + (exn + string)"
  json_loads :: "string \<Rightarrow> exn + pyval"
  urlencode :: "(string \<times> pyval) list \<Rightarrow> string"
  urlopen :: "string \<Rightarrow> string \<Rightarrow> int \<Rightarrow> exn + connection"
  decode :: "string \<Rightarrow> string \<Rightarrow> exn + string"
  unquote :: "string \<Rightarrow> string"

definition AF_INET :: int where
  "AF_INET = 2"

definition netifaces_interfaces :: "env \<Rightarrow> string list" where
  "netifaces_interfaces e = map fst (iftable e)"

definition netifaces_ifaddresses :: "env \<Rightarrow> string \<Rightarrow> exn + families" where
  "netifaces_ifaddresses e interface =
     (case map_of (iftable e) interface of
        None \<Rightarrow> Inl (Exn ValueError ''You must specify a valid interface name.'')
      | Some fams \<Rightarrow> Inr fams)"

definition address_val :: "address \<Rightarrow> pyval" where
  "address_val a = PyDict (map (\<lambda>kv. (fst kv, PyStr (snd kv))) a)"

text \<open>
  The IPv4 address records of an interface. \<open>netifaces\<close> lists a family only once
  it has found an address of it, and an IPv4 record carries its \<open>addr\<close>:
  \<open>netifaces_table\<close> says so of a table.
\<close>

definition ipv4_addresses :: "env \<Rightarrow> string \<Rightarrow> address list" where
  "ipv4_addresses e interface =
     (case map_of (iftable e) interface of
        None \<Rightarrow> []
      | Some fams \<Rightarrow> (case map_of fams AF_INET of None \<Rightarrow> [] | Some addressList \<Rightarrow> addressList))"

definition netifaces_table :: "env \<Rightarrow> bool" where
  "netifaces_table e =
     list_all
       (\<lambda>entry.
          list_all
            (\<lambda>fam. snd fam \<noteq> []
               \<and> (if fst fam = AF_INET
                   then list_all (\<lambda>a. ''addr'' \<in> set (map fst a)) (snd fam)
                   else True))
            (snd entry))
       (iftable e)"

text \<open>Text that \<open>repr\<close> writes between single quotes as it stands.\<close>

definition plain :: "string \<Rightarrow> bool" where
  "plain s = list_all (\<lambda>c. printable c \<and> c \<noteq> sq \<and> c \<noteq> CHR 0x5C) s"

section \<open>The script\<close>

definition DEFAULT_ENCODING :: string where
  "DEFAULT_ENCODING = ''utf-8''"

definition debugPrint :: "string option \<Rightarrow> bool \<Rightarrow> world \<Rightarrow> world" where
  "debugPrint message printNewline w =
     (case message of
        None \<Rightarrow> w
      | Some m \<Rightarrow>
          if \<not> DEBUG w then w
          else let w1 = print m w in if printNewline then print [] w1 else w1)"

definition nonDebugPrint :: "string option \<Rightarrow> bool \<Rightarrow> world \<Rightarrow> world" where
  "nonDebugPrint message printNewline w =
     (case message of
        None \<Rightarrow> w
      | Some m \<Rightarrow>
          if DEBUG w then w
          else let w1 = print m w in if printNewline then print [] w1 else w1)"

definition concatStringToList :: "string \<Rightarrow> pyval list \<Rightarrow> string" where
  "concatStringToList message elements = message @ join [nl] (map str elements)"

definition exitCodes :: "string list" where
  "exitCodes =
     [''main (): Success, normal exit'',
      ''main (): VPN is not connected'',
      ''getCredentials (): Credentials file cannot be opened'',
      ''getCredentials (): JSON credentials are malformed'',
      ''getCredentials (): Credentials file is missing required keys'',
      ''getIPAddress (): Found more addresses than expected'',
      ''forwardPort (): Error posting to API endpoint'',
      ''forwardPort (): API JSON response is malformed'',
      ''main (): API returned an error response'',
      ''main (): API returned an unknown response'']"

definition handleError :: "string \<Rightarrow> int \<Rightarrow> exn option \<Rightarrow> world \<Rightarrow> unit result \<times> world" where
  "handleError message exitCode exception w =
     (let w1 = print [] (print message w);
          w2 = (case exception of
                  None \<Rightarrow> w1
                | Some e \<Rightarrow> print [] (print (exn_str e) w1))
      in case py_index exitCodes exitCode of
           Inl e \<Rightarrow> (Raise e, w2)
         | Inr description \<Rightarrow>
             (Exit exitCode,
              print (''Exiting with exit status: '' @ show_int exitCode @ '', '' @ description) w2))"

definition isConnected :: "env \<Rightarrow> string \<Rightarrow> world \<Rightarrow> bool result \<times> world" where
  "isConnected e interface w =
     (let exists = interface \<in> set (netifaces_interfaces e)
      in if \<not> exists then (Return False, w)
         else case netifaces_ifaddresses e interface of
                Inl x \<Rightarrow> (Raise x, w)
              | Inr addressFamilies \<Rightarrow>
                  let up = AF_INET \<in> set (map fst addressFamilies)
                  in (Return up,
                      if up
                      then debugPrint (Some (''Interface: '' @ [sq] @ interface @ [sq] @ '' is connected'')) True w
                      else w))"

definition ADDRESS_LIMIT :: nat where
  "ADDRESS_LIMIT = 1"

definition tooManyMessage :: "nat \<Rightarrow> string \<Rightarrow> string" where
  "tooManyMessage addresses interface =
     ''Receieved '' @ show_nat addresses @ '' IPV4 address(es) for your VPN interface: ''
       @ [sq] @ interface @ [sq] @ '', expected: '' @ show_nat ADDRESS_LIMIT @ [nl]
       @ ''Addresses:'' @ [nl, nl]"

definition getIPAddress :: "env \<Rightarrow> string \<Rightarrow> world \<Rightarrow> string result \<times> world" where
  "getIPAddress e interface w =
     (case netifaces_ifaddresses e interface of
        Inl x \<Rightarrow> (Raise x, w)
      | Inr addressFamilies \<Rightarrow>
          (case map_of addressFamilies AF_INET of
             None \<Rightarrow> (Raise (Exn KeyError (show_int AF_INET)), w)
           | Some addressList \<Rightarrow>
               let addresses = length addressList
               in bind
                    (if addresses > ADDRESS_LIMIT
                     then handleError
                            (concatStringToList (tooManyMessage addresses interface)
                               (map address_val addressList)) 5 None w
                     else (Return (), w))
                    (\<lambda>u w1.
                       case py_index addressList 0 of
                         Inl x \<Rightarrow> (Raise x, w1)
                       | Inr address \<Rightarrow>
                           (case dict_getitem address ''addr'' of
                              Inl x \<Rightarrow> (Raise x, w1)
                            | Inr ip \<Rightarrow>
                                (Return ip,
                                 debugPrint
                                   (Some (''Local IP for VPN interface '' @ [sq] @ interface @ [sq]
                                            @ '': '' @ ip)) True w1)))))"


text \<open>
  The handlers of \<open>getCredentials\<close>: \<open>except (IOError, OSError)\<close>, then
  \<open>except (ValueError)\<close>. Were \<open>handleError\<close> to return, the script would go on
  below the \<open>try\<close> statement with the name \<open>credentials\<close> unbound: the
  \<open>try\<close> block returns \<open>None\<close> for that.
\<close>

definition getCredentials_except :: "string \<Rightarrow> exn \<Rightarrow> world \<Rightarrow> 'a option result \<times> world" where
  "getCredentials_except credentialsPath x w =
     (if issubclass (exn_cls x) OSError
      then bind
             (handleError
                (''Credentials file: '' @ [sq] @ credentialsPath @ [sq]
                   @ '' does not exist or cannot be opened'') 2 (Some x) w)
             (\<lambda>u w1. (Return None, w1))
      else if issubclass (exn_cls x) ValueError
      then bind
             (handleError
                (''JSON file: '' @ [sq] @ credentialsPath @ [sq]
                   @ '' is malformed, refer to the README or the exception message below for the correct format'')
                3 (Some x) w)
             (\<lambda>u w1. (Return None, w1))
      else (Raise x, w))"

text \<open>The \<open>try\<close> block of \<open>getCredentials\<close>: open, read, parse.\<close>

definition getCredentials_load :: "env \<Rightarrow> string \<Rightarrow> world \<Rightarrow> pyval option result \<times> world" where
  "getCredentials_load e credentialsPath w =
     (case open_file e credentialsPath of
        Inl x \<Rightarrow> getCredentials_except credentialsPath x w
      | Inr credentialsFile \<Rightarrow>
          let w1 = debugPrint (Some (''Using credentials file: '' @ [sq] @ credentialsPath @ [sq])) True w
          in (case credentialsFile of
                Inl x \<Rightarrow> getCredentials_except credentialsPath x w1
              | Inr text \<Rightarrow>
                  (case json_loads e text of
                     Inl x \<Rightarrow> getCredentials_except credentialsPath x w1
                   | Inr credentials \<Rightarrow> (Return (Some credentials), w1))))"

definition required_keys :: "string list" where
  "required_keys = [''user'', ''pass'', ''client_id'']"

text \<open>The last part of \<open>getCredentials\<close>: the check of the keys and the debugging lines.\<close>

definition getCredentials_check :: "string \<Rightarrow> (string \<times> pyval) list \<Rightarrow> world \<Rightarrow> (string \<times> pyval) list result \<times> world" where
  "getCredentials_check credentialsPath credentials w =
     bind
       (if \<not> (\<exists>k \<in> set (map fst credentials). k \<in> set required_keys)
        then handleError
               (''Credentials file: '' @ credentialsPath
                  @ '' is missing required keys. See the required format in the README'')
               4 None w
        else (Return (), w))
       (\<lambda>u w1.
          case dict_getitem credentials ''user'' of
            Inl x \<Rightarrow> (Raise x, w1)
          | Inr user \<Rightarrow>
              let w2 = debugPrint (Some (''Username: '' @ [sq] @ str user @ [sq])) False w1
              in (case dict_getitem credentials ''pass'' of
                    Inl x \<Rightarrow> (Raise x, w2)
                  | Inr pass \<Rightarrow>
                      let w3 = debugPrint (Some (''Password: '' @ [sq] @ str pass @ [sq])) False w2
                      in (case dict_getitem credentials ''client_id'' of
                            Inl x \<Rightarrow> (Raise x, w3)
                          | Inr client_id \<Rightarrow>
                              (Return credentials,
                               debugPrint
                                 (Some (''Client ID: '' @ [sq] @ str client_id @ [sq]))
                                 True w3))))"

definition getCredentials :: "env \<Rightarrow> string \<Rightarrow> string \<Rightarrow> world \<Rightarrow> (string \<times> pyval) list result \<times> world" where
  "getCredentials e credentialsPath interface w =
     bind (getCredentials_load e credentialsPath w)
       (\<lambda>loaded w1.
          bind (getIPAddress e interface w1)
            (\<lambda>ip w2.
               case (case loaded of
                       None \<Rightarrow> Inl (Exn UnboundLocalError ''credentials'')
                     | Some parsed \<Rightarrow> py_setitem parsed ''local_ip'' (PyStr ip)) of
                 Inl x \<Rightarrow> (Raise x, w2)
               | Inr credentials \<Rightarrow> getCredentials_check credentialsPath credentials w2))"

text \<open>
  The handler of \<open>forwardPort\<close>: \<open>except (urllib.error.URLError, urllib.error.HTTPError)\<close>.
  Below it the name \<open>response\<close> would be unbound.
\<close>

definition forwardPort_except :: "string \<Rightarrow> exn \<Rightarrow> world \<Rightarrow> 'a option result \<times> world" where
  "forwardPort_except endpointURL x w =
     (if issubclass (exn_cls x) URLError \<or> issubclass (exn_cls x) HTTPError
      then bind
             (handleError (''Error posting to endpoint URL: '' @ endpointURL) 6 (Some x) w)
             (\<lambda>u w1. (Return None, w1))
      else (Raise x, w))"

text \<open>
  The first \<open>try\<close> block of \<open>forwardPort\<close>: the request, the body and the name of
  its encoding.
\<close>

definition forwardPort_post :: "env \<Rightarrow> string \<Rightarrow> string \<Rightarrow> int \<Rightarrow> world \<Rightarrow> (string \<times> string) option result \<times> world" where
  "forwardPort_post e endpointURL parametersBytes timeout w =
     (case urlopen e endpointURL parametersBytes timeout of
        Inl x \<Rightarrow> forwardPort_except endpointURL x w
      | Inr connection \<Rightarrow>
          (case conn_read connection of
             Inl x \<Rightarrow> forwardPort_except endpointURL x w
           | Inr response \<Rightarrow>
               (Return (Some (response,
                              case content_charset connection of
                                None \<Rightarrow> DEFAULT_ENCODING
                              | Some responseEncoding \<Rightarrow> responseEncoding)), w)))"

text \<open>\<open>str.encode\<close> of the percent-encoded parameters, which are ASCII.\<close>

definition str_encode :: "string \<Rightarrow> string" where
  "str_encode s = s"

definition malformedMessage :: "string \<Rightarrow> string" where
  "malformedMessage nonHTTPResponse =
     ''The API response is malformed, refer to the response text and the exception message below''
       @ [nl, nl] @ ''Response text: '' @ nonHTTPResponse"

definition forwardPort :: "env \<Rightarrow> (string \<times> pyval) list \<Rightarrow> string \<Rightarrow> int \<Rightarrow> world \<Rightarrow> pyval result \<times> world" where
  "forwardPort e credentials endpointURL timeout w =
     (let w1 = debugPrint (Some (''Posting to endpoint: '' @ [sq] @ endpointURL @ [sq])) True w;
          parameters = urlencode e credentials;
          parametersBytes = str_encode parameters
      in bind (forwardPort_post e endpointURL parametersBytes timeout w1)
           (\<lambda>received w2.
              case received of
                None \<Rightarrow> (Raise (Exn UnboundLocalError ''response''), w2)
              | Some (response, responseEncoding) \<Rightarrow>
                  (case decode e response responseEncoding of
                     Inl x \<Rightarrow> (Raise x, w2)
                   | Inr responseString \<Rightarrow>
                       let nonHTTPResponse = unquote e responseString;
                           w3 = debugPrint
                                  (Some (''Decoded API response bytes as: '' @ [sq] @ responseEncoding @ [sq]))
                                  True w2;
                           w4 = debugPrint
                                  (Some (''API response JSON: '' @ [sq] @ nonHTTPResponse @ [sq]))
                                  True w3
                       in (case json_loads e nonHTTPResponse of
                             Inr v \<Rightarrow> (Return v, w4)
                           | Inl x \<Rightarrow>
                               if issubclass (exn_cls x) ValueError
                               then bind (handleError (malformedMessage nonHTTPResponse) 7 (Some x) w4)
                                      (\<lambda>u w5. (Return PyNone, w5))
                               else (Raise x, w4)))))"

text \<open>The part of \<open>main\<close> that reads the response: the \<open>if\<close>, \<open>elif\<close>, \<open>else\<close>.\<close>

definition main_response :: "pyval \<Rightarrow> world \<Rightarrow> unit result \<times> world" where
  "main_response response w =
     (case py_contains response ''port'' of
        Inl x \<Rightarrow> (Raise x, w)
      | Inr True \<Rightarrow>
          (case py_getitem response ''port'' of
             Inl x \<Rightarrow> (Raise x, w)
           | Inr port \<Rightarrow> (Return (), print [] (print (''Forwarded port: '' @ str port) w)))
      | Inr False \<Rightarrow>
          (case py_contains response ''error'' of
             Inl x \<Rightarrow> (Raise x, w)
           | Inr True \<Rightarrow>
               (case py_getitem response ''error'' of
                  Inl x \<Rightarrow> (Raise x, w)
                | Inr err \<Rightarrow> handleError (''API returned an error: '' @ str err) 8 None w)
           | Inr False \<Rightarrow>
               (case py_items response of
                  Inl x \<Rightarrow> (Raise x, w)
                | Inr items \<Rightarrow>
                    let keyValues = map (\<lambda>kv. fst kv @ '': '' @ str (snd kv)) items;
                        message = concatStringToList
                                    (''API returned unknown key/value pair(s):'' @ [nl, nl])
                                    (map PyStr keyValues)
                    in handleError message 9 None w)))"

record args =
  debug :: bool
  credentialsfile :: string

definition ENDPOINT :: string where
  "ENDPOINT = ''https://www.privateinternetaccess.com/vpninfo/port_forward_assignment''"

definition INTERFACE :: string where
  "INTERFACE = ''tun0''"

definition TIMEOUT :: int where
  "TIMEOUT = 10"

definition banner :: "world \<Rightarrow> world" where
  "banner w =
     print []
       (print ''https://github.com/Favorablestream''
          (print ''Version: 1.2, 23/12/2016''
             (print ''Private Internet Access Port Forwarding Script - Copyright 2016 Kieran Gillibrand, MIT License (LICENSE.txt)''
                (print [] w))))"

definition main :: "env \<Rightarrow> args \<Rightarrow> world \<Rightarrow> unit result \<times> world" where
  "main e a w =
     (let w1 = (banner w)\<lparr>DEBUG := debug a\<rparr>;
          w2 = debugPrint (Some ''Debugging print statements enabled'') True w1
      in bind (isConnected e INTERFACE w2)
           (\<lambda>connected w3.
              bind
                (if \<not> connected
                 then handleError
                        (''VPN interface: '' @ [sq] @ INTERFACE @ [sq]
                           @ '' is not connected, please connect it first'' @ [nl]
                           @ ''Be sure the INTERFACE variable is correctly set if your VPN is actually connected'')
                        1 None w3
                 else (Return (), w3))
                (\<lambda>u w4.
                   bind (getCredentials e (credentialsfile a) INTERFACE w4)
                     (\<lambda>credentials w5.
                        bind (forwardPort e credentials ENDPOINT TIMEOUT w5)
                          (\<lambda>response w6.
                             bind (main_response response (nonDebugPrint (Some ''Response recieved'') True w6))
                               (\<lambda>u w7.
                                  (Return (),
                                   print ''Have a nice day :)''
                                     (print ''Make sure to allow this port in your firewall and configure your applications to use it.''
                                        w7))))))))"


section \<open>An example machine\<close>

text \<open>
  A machine to run the script on: a tunnel \<open>tun0\<close> with one IPv4 address, a card
  \<open>eth0\<close> with two, an interface \<open>sit0\<close> with an IPv6 address only; a few
  credentials files, one of them (\<open>deep.json\<close>) nested deeper than the interpreter
  follows; and an endpoint that answers by the path asked.
\<close>

definition quoted :: "string \<Rightarrow> string" where
  "quoted s = [dq] @ s @ [dq]"

definition example_iftable :: "(string \<times> families) list" where
  "example_iftable =
     [(''lo'', [(2, [[(''addr'', ''127.0.0.1''), (''netmask'', ''255.0.0.0'')]])]),
      (''eth0'',
       [(17, [[(''addr'', ''52:54:00:12:34:56''), (''broadcast'', ''ff:ff:ff:ff:ff:ff'')]]),
        (2, [[(''addr'', ''192.168.1.10''), (''netmask'', ''255.255.255.0'')],
             [(''addr'', ''192.168.1.11''), (''netmask'', ''255.255.255.0'')]])]),
      (''sit0'', [(10, [[(''addr'', ''::1'')]])]),
      (''tun0'', [(2, [[(''addr'', ''10.8.0.6''), (''netmask'', ''255.255.255.255''),
                        (''peer'', ''10.8.0.5'')]])])]"

definition full_json :: string where
  "full_json =
     ''{'' @ quoted ''user'' @ '': '' @ quoted ''p1234567'' @ '', ''
       @ quoted ''pass'' @ '': '' @ quoted ''hunter2'' @ '', ''
       @ quoted ''client_id'' @ '': '' @ quoted ''0f3c'' @ ''}''"

definition partial_json :: string where
  "partial_json = ''{'' @ quoted ''user'' @ '': '' @ quoted ''p1234567'' @ ''}''"

definition other_json :: string where
  "other_json = ''{'' @ quoted ''name'' @ '': '' @ quoted ''p1234567'' @ ''}''"

definition port_json :: string where
  "port_json = ''{'' @ quoted ''port'' @ '': 12345}''"

definition deep_json :: string where
  "deep_json = replicate 100000 (CHR ''['')"

definition example_documents :: "(string \<times> pyval) list" where
  "example_documents =
     [(full_json,
       PyDict [(''user'', PyStr ''p1234567''), (''pass'', PyStr ''hunter2''),
               (''client_id'', PyStr ''0f3c'')]),
      (partial_json, PyDict [(''user'', PyStr ''p1234567'')]),
      (other_json, PyDict [(''name'', PyStr ''p1234567'')]),
      (''{}'', PyDict []),
      (port_json, PyDict [(''port'', PyInt 12345)])]"

definition example_files :: "(string \<times> (exn + string)) list" where
  "example_files =
     [(''full.json'', Inr full_json),
      (''partial.json'', Inr partial_json),
      (''other.json'', Inr other_json),
      (''empty.json'', Inr ''{}''),
      (''broken.json'', Inr ''{user: ''),
      (''deep.json'', Inr deep_json),
      (''latin.json'', Inl (Exn UnicodeDecodeError ''invalid start byte'')),
      (''stale.json'', Inl (Exn OSError ''[Errno 5] Input/output error''))]"

definition example_endpoints :: "(string \<times> (exn + connection)) list" where
  "example_endpoints =
     [(''https://api.example/ok'',
       Inr \<lparr>conn_read = Inr port_json, content_charset = None\<rparr>),
      (''https://api.example/escaped'',
       Inr \<lparr>conn_read = Inr ''%257B%257D'', content_charset = Some ''ascii''\<rparr>),
      (''https://api.example/once'',
       Inr \<lparr>conn_read = Inr ''%7B%7D'', content_charset = Some ''utf-8''\<rparr>),
      (''https://api.example/charset'',
       Inr \<lparr>conn_read = Inr port_json, content_charset = Some ''x-unknown''\<rparr>),
      (''https://api.example/html'',
       Inr \<lparr>conn_read = Inr ''<html>busy</html>'', content_charset = None\<rparr>),
      (''https://api.example/stall'',
       Inr \<lparr>conn_read = Inl (Exn TimeoutError ''The read operation timed out''),
           content_charset = None\<rparr>),
      (''https://api.example/gone'', Inl (Exn HTTPError ''HTTP Error 404: Not Found''))]"

definition example_env :: env where
  "example_env =
     \<lparr>iftable = example_iftable,
      open_file =
        (\<lambda>path. if path = ''secret.json''
                then Inl (Exn PermissionError ''[Errno 13] Permission denied'')
                else case map_of example_files path of
                       None \<Rightarrow> Inl (Exn FileNotFoundError ''[Errno 2] No such file or directory'')
                     | Some content \<Rightarrow> Inr content),
      json_loads =
        (\<lambda>s. if s = deep_json
              then Inl (Exn RecursionError ''maximum recursion depth exceeded while decoding a JSON array'')
              else case map_of example_documents s of
                     None \<Rightarrow> Inl (Exn JSONDecodeError ''Expecting value: line 1 column 1 (char 0)'')
                   | Some v \<Rightarrow> Inr v),
      urlencode = (\<lambda>d. join ''&'' (map (\<lambda>kv. fst kv @ ''='' @ str (snd kv)) d)),
      urlopen =
        (\<lambda>url body seconds.
           case map_of example_endpoints url of
             None \<Rightarrow> Inl (Exn URLError ''<urlopen error [Errno 111] Connection refused>'')
           | Some answer \<Rightarrow> answer),
      decode =
        (\<lambda>body encoding.
           if encoding = ''utf-8'' \<or> encoding = ''ascii'' then Inr body
           else Inl (Exn LookupError (''unknown encoding: '' @ encoding))),
      unquote =
        (\<lambda>s. if s = ''%257B%257D'' then ''%7B%7D'' else if s = ''%7B%7D'' then ''{}'' else s)\<rparr>"

definition w0 :: world where
  "w0 = \<lparr>DEBUG = False, stdout = []\<rparr>"

definition w_debug :: world where
  "w_debug = \<lparr>DEBUG = True, stdout = []\<rparr>"

section \<open>Properties\<close>

subsection \<open>Auxiliary facts\<close>

lemma py_index_exitCodes:
  "0 \<le> c \<Longrightarrow> c < 10 \<Longrightarrow> py_index exitCodes c = Inr (exitCodes ! nat c)"
  by (simp add: py_index_def exitCodes_def)

lemma handleError_in_table:
  assumes "0 \<le> c" and "c < 10"
  shows "handleError m c x w =
     (Exit c,
      w\<lparr>stdout := stdout w @ [m, []]
           @ (case x of None \<Rightarrow> [] | Some e \<Rightarrow> [exn_str e, []])
           @ [''Exiting with exit status: '' @ show_int c @ '', '' @ exitCodes ! nat c]\<rparr>)"
  using assms
  by (simp add: handleError_def Let_def print_def py_index_exitCodes split: option.splits)

lemma handleError_not_Return: "fst (handleError m c x w) \<noteq> Return u"
  by (simp add: handleError_def Let_def split: sum.splits)

lemma handleError_8:
  "handleError m 8 None w =
     (Exit 8,
      w\<lparr>stdout := stdout w
           @ [m, [], ''Exiting with exit status: 8, main (): API returned an error response'']\<rparr>)"
  by (simp add: handleError_def py_index_def exitCodes_def show_int_def show_nat.simps digit_def print_def)

lemma handleError_9:
  "handleError m 9 None w =
     (Exit 9,
      w\<lparr>stdout := stdout w
           @ [m, [], ''Exiting with exit status: 9, main (): API returned an unknown response'']\<rparr>)"
  by (simp add: handleError_def py_index_def exitCodes_def show_int_def show_nat.simps digit_def print_def)

lemma dict_getitem_in:
  "k \<in> set (map fst d) \<Longrightarrow> dict_getitem d k = Inr (the (map_of d k))"
  by (auto simp add: dict_getitem_def map_of_eq_None_iff split: option.splits)

lemma contains_str_iff: "contains_str s p \<longleftrightarrow> (\<exists>a b. s = a @ p @ b)"
proof (induction s)
  case Nil
  show ?case by auto
next
  case (Cons c cs)
  have pre: "take (length p) (c # cs) = p \<longleftrightarrow> (\<exists>b. c # cs = p @ b)"
    by (metis append_eq_conv_conj append_take_drop_id)
  have "(\<exists>a b. c # cs = a @ p @ b) \<longleftrightarrow> (\<exists>b. c # cs = p @ b) \<or> (\<exists>a b. cs = a @ p @ b)"
  proof
    assume "\<exists>a b. c # cs = a @ p @ b"
    then obtain a b where ab: "c # cs = a @ p @ b" by blast
    show "(\<exists>b. c # cs = p @ b) \<or> (\<exists>a b. cs = a @ p @ b)"
    proof (cases a)
      case Nil
      with ab show ?thesis by auto
    next
      case (Cons x a')
      with ab have "cs = a' @ p @ b" by simp
      then show ?thesis by blast
    qed
  next
    assume "(\<exists>b. c # cs = p @ b) \<or> (\<exists>a b. cs = a @ p @ b)"
    then show "\<exists>a b. c # cs = a @ p @ b"
    proof
      assume "\<exists>b. c # cs = p @ b"
      then obtain b where "c # cs = [] @ p @ b" by auto
      then show ?thesis by blast
    next
      assume "\<exists>a b. cs = a @ p @ b"
      then obtain a b where "c # cs = (c # a) @ p @ b" by auto
      then show ?thesis by blast
    qed
  qed
  with Cons.IH pre show ?case by simp
qed

lemma join_member: "x \<in> set xs \<Longrightarrow> \<exists>a b. join sep xs = a @ x @ b"
proof (induction sep xs rule: join.induct)
  case (1 sep)
  then show ?case by simp
next
  case (2 sep y)
  then have "join sep [y] = [] @ x @ []" by simp
  then show ?case by blast
next
  case (3 sep y z zs)
  show ?case
  proof (cases "x = y")
    case True
    then have "join sep (y # z # zs) = [] @ x @ (sep @ join sep (z # zs))" by simp
    then show ?thesis by blast
  next
    case False
    with 3 obtain a b where "join sep (z # zs) = a @ x @ b" by auto
    then have "join sep (y # z # zs) = (y @ sep @ a) @ x @ b" by simp
    then show ?thesis by blast
  qed
qed

lemma contains_str_trans:
  "contains_str s m \<Longrightarrow> contains_str m p \<Longrightarrow> contains_str s p"
proof -
  assume "contains_str s m" and "contains_str m p"
  then obtain a b c d where "s = a @ m @ b" and "m = c @ p @ d"
    unfolding contains_str_iff by blast
  then have "s = (a @ c) @ p @ (d @ b)" by simp
  then show ?thesis unfolding contains_str_iff by blast
qed

lemma escape_plain: "printable c \<Longrightarrow> c \<noteq> sq \<Longrightarrow> c \<noteq> CHR 0x5C \<Longrightarrow> escape sq c = [c]"
  by (auto simp add: escape_def printable_def Let_def)

lemma concat_escape_plain: "plain s \<Longrightarrow> concat (map (escape sq) s) = s"
  by (induction s) (simp_all add: plain_def escape_plain)

lemma repr_str_plain: "plain s \<Longrightarrow> repr_str s = [sq] @ s @ [sq]"
proof -
  assume p: "plain s"
  then have "sq \<notin> set s" by (auto simp add: plain_def list_all_iff)
  with p show ?thesis by (simp add: repr_str_def concat_escape_plain)
qed

lemma repr_address_contains:
  assumes "map_of a ''addr'' = Some ip" and "plain ip"
  shows "contains_str (str (address_val a)) ip"
proof -
  from assms(1) have mem: "(''addr'', ip) \<in> set a" by (rule map_of_SomeD)
  let ?item = "\<lambda>kv. repr_str (fst kv) @ '': '' @ repr (snd kv)"
  let ?kvs = "map (\<lambda>kv. (fst kv, PyStr (snd kv))) a"
  from mem have "?item (''addr'', PyStr ip) \<in> set (map ?item ?kvs)" by force
  then obtain x y where "join '', '' (map ?item ?kvs) = x @ ?item (''addr'', PyStr ip) @ y"
    using join_member by blast
  then have "str (address_val a) =
      (''{'' @ x @ repr_str ''addr'' @ '': '' @ [sq]) @ ip @ ([sq] @ y @ ''}'')"
    using assms(2) by (simp add: address_val_def repr_str_plain)
  then show ?thesis unfolding contains_str_iff by blast
qed

lemma in_keys_iff: "k \<in> set (map fst d) \<longleftrightarrow> (\<exists>v. map_of d k = Some v)"
  using map_of_eq_None_iff [of d k] by auto

lemma map_of_interfaces:
  "interface \<in> set (netifaces_interfaces e) \<longleftrightarrow> (\<exists>fams. map_of (iftable e) interface = Some fams)"
  by (simp only: netifaces_interfaces_def in_keys_iff)

lemma debugPrint_DEBUG: "DEBUG (debugPrint m n w) = DEBUG w"
  by (simp add: debugPrint_def print_def Let_def split: option.splits)

lemma debugPrint_stdout:
  "debugPrint (Some m) n w =
     w\<lparr>stdout := stdout w @ (if DEBUG w then (if n then [m, []] else [m]) else [])\<rparr>"
  by (simp add: debugPrint_def print_def Let_def)

lemma netifaces_table_family:
  assumes "netifaces_table e" and "map_of (iftable e) interface = Some fams"
    and "map_of fams f = Some l"
  shows "l \<noteq> []" and "f = AF_INET \<Longrightarrow> a \<in> set l \<Longrightarrow> ''addr'' \<in> set (map fst a)"
proof -
  from assms(2) have "(interface, fams) \<in> set (iftable e)" by (rule map_of_SomeD)
  moreover from assms(3) have "(f, l) \<in> set fams" by (rule map_of_SomeD)
  ultimately have *: "l \<noteq> [] \<and> (if f = AF_INET then list_all (\<lambda>a. ''addr'' \<in> set (map fst a)) l else True)"
    using assms(1) by (fastforce simp add: netifaces_table_def list_all_iff)
  then show "l \<noteq> []" by simp
  show "f = AF_INET \<Longrightarrow> a \<in> set l \<Longrightarrow> ''addr'' \<in> set (map fst a)"
    using * by (simp add: list_all_iff)
qed

lemma example_table_ok: "netifaces_table example_env"
  by (simp add: netifaces_table_def example_env_def example_iftable_def AF_INET_def)

lemma handleError_5:
  "handleError m 5 None w =
     (Exit 5,
      w\<lparr>stdout := stdout w
           @ [m, [], ''Exiting with exit status: 5, getIPAddress (): Found more addresses than expected'']\<rparr>)"
  by (simp add: handleError_def py_index_def exitCodes_def show_int_def show_nat.simps digit_def print_def)

lemma ipv4_addresses_lookup:
  assumes "ipv4_addresses e interface = l" and "l \<noteq> []"
  shows "\<exists>fams. netifaces_ifaddresses e interface = Inr fams \<and> map_of fams AF_INET = Some l"
  using assms
  by (auto simp add: ipv4_addresses_def netifaces_ifaddresses_def split: option.splits)

lemma getIPAddress_many:
  assumes "netifaces_ifaddresses e interface = Inr fams" and "map_of fams AF_INET = Some l"
    and "1 < length l"
  shows "getIPAddress e interface w =
     (Exit 5,
      w\<lparr>stdout := stdout w
           @ [tooManyMessage (length l) interface @ join [nl] (map (\<lambda>a. str (address_val a)) l), [],
              ''Exiting with exit status: 5, getIPAddress (): Found more addresses than expected'']\<rparr>)"
  using assms
  by (simp add: getIPAddress_def ADDRESS_LIMIT_def bind_def handleError_5 concatStringToList_def
      comp_def)

lemma getIPAddress_one:
  assumes "netifaces_ifaddresses e interface = Inr fams" and "map_of fams AF_INET = Some [a]"
    and "map_of a ''addr'' = Some ip"
  shows "getIPAddress e interface w =
     (Return ip,
      w\<lparr>stdout := stdout w
           @ (if DEBUG w
              then [''Local IP for VPN interface '' @ [sq] @ interface @ [sq] @ '': '' @ ip, []]
              else [])\<rparr>)"
  using assms
  by (simp add: getIPAddress_def ADDRESS_LIMIT_def bind_def py_index_def dict_getitem_def
      debugPrint_stdout)

lemma example_eth0: "ipv4_addresses example_env ''eth0'' =
   [[(''addr'', ''192.168.1.10''), (''netmask'', ''255.255.255.0'')],
    [(''addr'', ''192.168.1.11''), (''netmask'', ''255.255.255.0'')]]"
  by (simp add: ipv4_addresses_def example_env_def example_iftable_def AF_INET_def)

lemma example_tun0: "ipv4_addresses example_env ''tun0'' =
   [[(''addr'', ''10.8.0.6''), (''netmask'', ''255.255.255.255''), (''peer'', ''10.8.0.5'')]]"
  by (simp add: ipv4_addresses_def example_env_def example_iftable_def AF_INET_def)

lemma plain_examples: "plain ''192.168.1.10''" "plain ''192.168.1.11''"
  by (simp_all add: plain_def printable_def sq_def)

lemma isConnected_True_lookup:
  assumes "fst (isConnected e interface w) = Return True"
  shows "\<exists>fams addressList.
           netifaces_ifaddresses e interface = Inr fams \<and> map_of fams AF_INET = Some addressList"
proof -
  have ex: "interface \<in> set (netifaces_interfaces e)"
  proof (rule ccontr)
    assume "interface \<notin> set (netifaces_interfaces e)"
    then have "isConnected e interface w = (Return False, w)"
      by (simp add: isConnected_def)
    with assms show False by simp
  qed
  then obtain fams where fams: "map_of (iftable e) interface = Some fams"
    using map_of_interfaces [of interface e] by blast
  with assms ex have "AF_INET \<in> set (map fst fams)"
    by (simp add: isConnected_def Let_def netifaces_ifaddresses_def)
  then obtain l where "map_of fams AF_INET = Some l"
    using in_keys_iff [of AF_INET fams] by blast
  with fams show ?thesis by (simp add: netifaces_ifaddresses_def)
qed

lemma getIPAddress_total:
  assumes fams: "map_of (iftable e) interface = Some fams" and l: "map_of fams AF_INET = Some l"
    and wf: "netifaces_table e"
  shows "(\<exists>ip. fst (getIPAddress e interface w) = Return ip) \<or> fst (getIPAddress e interface w) = Exit 5"
proof -
  from fams have look: "netifaces_ifaddresses e interface = Inr fams"
    by (simp add: netifaces_ifaddresses_def)
  from netifaces_table_family(1) [OF wf fams l] have ne: "l \<noteq> []" .
  show ?thesis
  proof (cases "1 < length l")
    case True
    with getIPAddress_many [OF look l] show ?thesis by simp
  next
    case False
    with ne have "length l = 1" by (cases l) simp_all
    then obtain a where a: "l = [a]" by (cases l) simp_all
    have "a \<in> set l" using a by simp
    with netifaces_table_family(2) [OF wf fams l refl] have "''addr'' \<in> set (map fst a)" .
    then obtain ip where ip: "map_of a ''addr'' = Some ip"
      using in_keys_iff [of "''addr''" a] by blast
    from l a have "map_of fams AF_INET = Some [a]" by simp
    from getIPAddress_one [OF look this ip] show ?thesis by simp
  qed
qed

lemma handleError_2:
  "handleError m 2 (Some x) w =
     (Exit 2,
      w\<lparr>stdout := stdout w
           @ [m, [], exn_str x, [],
              ''Exiting with exit status: 2, getCredentials (): Credentials file cannot be opened'']\<rparr>)"
  by (simp add: handleError_def py_index_def exitCodes_def show_int_def show_nat.simps digit_def print_def)

lemma handleError_3:
  "handleError m 3 (Some x) w =
     (Exit 3,
      w\<lparr>stdout := stdout w
           @ [m, [], exn_str x, [],
              ''Exiting with exit status: 3, getCredentials (): JSON credentials are malformed'']\<rparr>)"
  by (simp add: handleError_def py_index_def exitCodes_def show_int_def show_nat.simps digit_def print_def)

lemma handleError_4:
  "handleError m 4 None w =
     (Exit 4,
      w\<lparr>stdout := stdout w
           @ [m, [],
              ''Exiting with exit status: 4, getCredentials (): Credentials file is missing required keys'']\<rparr>)"
  by (simp add: handleError_def py_index_def exitCodes_def show_int_def show_nat.simps digit_def print_def)

lemma ValueError_not_OSError: "issubclass c ValueError \<Longrightarrow> \<not> issubclass c OSError"
  by (cases c) (simp_all add: issubclass_def)

lemma getCredentials_except_OSError:
  "issubclass (exn_cls x) OSError \<Longrightarrow>
   getCredentials_except path x w =
     (Exit 2,
      w\<lparr>stdout := stdout w
           @ [''Credentials file: '' @ [sq] @ path @ [sq] @ '' does not exist or cannot be opened'',
              [], exn_str x, [],
              ''Exiting with exit status: 2, getCredentials (): Credentials file cannot be opened'']\<rparr>)"
  by (simp add: getCredentials_except_def handleError_2 bind_def)

lemma getCredentials_except_ValueError:
  "issubclass (exn_cls x) ValueError \<Longrightarrow>
   getCredentials_except path x w =
     (Exit 3,
      w\<lparr>stdout := stdout w
           @ [''JSON file: '' @ [sq] @ path @ [sq]
                @ '' is malformed, refer to the README or the exception message below for the correct format'',
              [], exn_str x, [],
              ''Exiting with exit status: 3, getCredentials (): JSON credentials are malformed'']\<rparr>)"
  by (simp add: getCredentials_except_def handleError_3 bind_def ValueError_not_OSError)

lemma getCredentials_Exit:
  "getCredentials_load e path w = (Exit c, w1) \<Longrightarrow> getCredentials e path interface w = (Exit c, w1)"
  by (simp add: getCredentials_def bind_def)

lemma deep_json_head: "deep_json = CHR ''['' # replicate 99999 (CHR ''['')"
proof -
  have "replicate (Suc 99999) (CHR ''['') = CHR ''['' # replicate 99999 (CHR ''['')"
    by (rule replicate_Suc)
  moreover have "Suc 99999 = (100000 :: nat)"
    by simp
  ultimately show ?thesis
    by (simp only: deep_json_def)
qed

lemma example_open:
  "open_file example_env ''nothing.json'' = Inl (Exn FileNotFoundError ''[Errno 2] No such file or directory'')"
  "open_file example_env ''secret.json'' = Inl (Exn PermissionError ''[Errno 13] Permission denied'')"
  "open_file example_env ''stale.json'' = Inr (Inl (Exn OSError ''[Errno 5] Input/output error''))"
  "open_file example_env ''broken.json'' = Inr (Inr ''{user: '')"
  "open_file example_env ''full.json'' = Inr (Inr full_json)"
  "open_file example_env ''partial.json'' = Inr (Inr partial_json)"
  "open_file example_env ''other.json'' = Inr (Inr other_json)"
  "open_file example_env ''empty.json'' = Inr (Inr ''{}'')"
  "open_file example_env ''latin.json'' = Inr (Inl (Exn UnicodeDecodeError ''invalid start byte''))"
  "open_file example_env ''deep.json'' = Inr (Inr deep_json)"
  by (simp_all add: example_env_def example_files_def)

lemma example_loads:
  "json_loads example_env ''{user: '' = Inl (Exn JSONDecodeError ''Expecting value: line 1 column 1 (char 0)'')"
  "json_loads example_env full_json =
     Inr (PyDict [(''user'', PyStr ''p1234567''), (''pass'', PyStr ''hunter2''),
                  (''client_id'', PyStr ''0f3c'')])"
  "json_loads example_env partial_json = Inr (PyDict [(''user'', PyStr ''p1234567'')])"
  "json_loads example_env other_json = Inr (PyDict [(''name'', PyStr ''p1234567'')])"
  "json_loads example_env ''{}'' = Inr (PyDict [])"
  "json_loads example_env deep_json =
     Inl (Exn RecursionError ''maximum recursion depth exceeded while decoding a JSON array'')"
  by (simp_all add: example_env_def example_documents_def full_json_def partial_json_def
      other_json_def port_json_def quoted_def dq_def deep_json_head)

lemma dict_setitem_keys: "set (map fst (dict_setitem d k v)) = insert k (set (map fst d))"
  by (induction d) auto

lemma map_of_dict_setitem: "map_of (dict_setitem d k v) = (map_of d)(k \<mapsto> v)"
  by (induction d) auto

lemma dict_getitem_setitem_other:
  "k' \<noteq> k \<Longrightarrow> dict_getitem (dict_setitem d k v) k' = dict_getitem d k'"
  by (simp add: dict_getitem_def map_of_dict_setitem)

lemma getCredentials_load_parsed:
  assumes "open_file e path = Inr (Inr contents)" and "json_loads e contents = Inr v"
  shows "getCredentials_load e path w =
     (Return (Some v), debugPrint (Some (''Using credentials file: '' @ [sq] @ path @ [sq])) True w)"
  using assms by (simp add: getCredentials_load_def Let_def)

lemma getIPAddress_single:
  assumes "ipv4_addresses e interface = [a]" and "map_of a ''addr'' = Some ip"
  shows "fst (getIPAddress e interface w) = Return ip"
proof -
  from assms(1) obtain fams where
    "netifaces_ifaddresses e interface = Inr fams" "map_of fams AF_INET = Some [a]"
    using ipv4_addresses_lookup [of e interface "[a]"] by auto
  from getIPAddress_one [OF this assms(2)] show ?thesis by simp
qed

lemma bind_Return: "bind (Return x, w) f = f x w"
  by (simp add: bind_def)

lemma getCredentials_check_result:
  "fst (getCredentials_check path creds w) =
     (if \<not> (\<exists>k \<in> set (map fst creds). k \<in> set required_keys) then Exit 4
      else if ''user'' \<notin> set (map fst creds) then Raise (Exn KeyError (repr_str ''user''))
      else if ''pass'' \<notin> set (map fst creds) then Raise (Exn KeyError (repr_str ''pass''))
      else if ''client_id'' \<notin> set (map fst creds) then Raise (Exn KeyError (repr_str ''client_id''))
      else Return creds)"
proof -
  have absent: "dict_getitem creds k = Inl (Exn KeyError (repr_str k))" if "k \<notin> set (map fst creds)" for k
    using that in_keys_iff [of k creds] by (simp add: dict_getitem_def split: option.splits)
  have present: "dict_getitem creds k = Inr (the (map_of creds k))" if "k \<in> set (map fst creds)" for k
    using that by (rule dict_getitem_in)
  show ?thesis
  proof (cases "\<exists>k \<in> set (map fst creds). k \<in> set required_keys")
    case False
    then show ?thesis
      unfolding getCredentials_check_def by (simp add: handleError_4 bind_def del: set_map)
  next
    case some: True
    show ?thesis
    proof (cases "''user'' \<in> set (map fst creds)")
      case False
      with some show ?thesis
        unfolding getCredentials_check_def by (simp add: bind_def absent del: set_map)
    next
      case u: True
      show ?thesis
      proof (cases "''pass'' \<in> set (map fst creds)")
        case False
        with some u show ?thesis
          unfolding getCredentials_check_def
          by (simp add: bind_def absent present Let_def del: set_map)
      next
        case p: True
        show ?thesis
        proof (cases "''client_id'' \<in> set (map fst creds)")
          case False
          with some u p show ?thesis
            unfolding getCredentials_check_def
            by (simp add: bind_def absent present Let_def del: set_map)
        next
          case c: True
          with some u p show ?thesis
            unfolding getCredentials_check_def
            by (simp add: bind_def present Let_def del: set_map)
        qed
      qed
    qed
  qed
qed

lemma getCredentials_object:
  assumes "open_file e path = Inr (Inr contents)" and "json_loads e contents = Inr (PyDict kvs)"
    and "ipv4_addresses e interface = [a]" and "map_of a ''addr'' = Some ip"
  shows "\<exists>w2. getCredentials e path interface w =
     getCredentials_check path (dict_setitem kvs ''local_ip'' (PyStr ip)) w2"
proof -
  let ?w1 = "debugPrint (Some (''Using credentials file: '' @ [sq] @ path @ [sq])) True w"
  obtain w2 where ipr: "getIPAddress e interface ?w1 = (Return ip, w2)"
    using getIPAddress_single [OF assms(3,4), of ?w1] by (cases "getIPAddress e interface ?w1") simp
  have "getCredentials e path interface w =
     getCredentials_check path (dict_setitem kvs ''local_ip'' (PyStr ip)) w2"
    unfolding getCredentials_def getCredentials_load_parsed [OF assms(1,2)] bind_Return ipr
    by simp
  then show ?thesis by blast
qed


lemma example_single:
  "ipv4_addresses example_env ''tun0'' =
     [[(''addr'', ''10.8.0.6''), (''netmask'', ''255.255.255.255''), (''peer'', ''10.8.0.5'')]]"
  "map_of [(''addr'', ''10.8.0.6''), (''netmask'', ''255.255.255.255''), (''peer'', ''10.8.0.5'')]
     ''addr'' = Some ''10.8.0.6''"
  by (simp_all add: example_tun0)

lemma getCredentials_two_addresses:
  assumes "open_file e path = Inr (Inr contents)" and "json_loads e contents = Inr v"
    and "1 < length (ipv4_addresses e interface)"
  shows "fst (getCredentials e path interface w) = Exit 5"
proof -
  let ?w1 = "debugPrint (Some (''Using credentials file: '' @ [sq] @ path @ [sq])) True w"
  from assms(3) have "ipv4_addresses e interface \<noteq> []" by auto
  with ipv4_addresses_lookup obtain fams where
    "netifaces_ifaddresses e interface = Inr fams"
    "map_of fams AF_INET = Some (ipv4_addresses e interface)"
    by blast
  from getIPAddress_many [OF this assms(3), of ?w1]
  obtain w2 where "getIPAddress e interface ?w1 = (Exit 5, w2)" by blast
  then show ?thesis
    unfolding getCredentials_def getCredentials_load_parsed [OF assms(1,2)] bind_Return
    by (simp add: bind_def)
qed

lemma handleError_6:
  "handleError m 6 (Some x) w =
     (Exit 6,
      w\<lparr>stdout := stdout w
           @ [m, [], exn_str x, [],
              ''Exiting with exit status: 6, forwardPort (): Error posting to API endpoint'']\<rparr>)"
  by (simp add: handleError_def py_index_def exitCodes_def show_int_def show_nat.simps digit_def print_def)


lemma forwardPort_except_URLError:
  "issubclass (exn_cls x) URLError \<Longrightarrow>
   forwardPort_except endpointURL x w =
     (Exit 6,
      w\<lparr>stdout := stdout w
           @ [''Error posting to endpoint URL: '' @ endpointURL, [], exn_str x, [],
              ''Exiting with exit status: 6, forwardPort (): Error posting to API endpoint'']\<rparr>)"
  by (simp add: forwardPort_except_def handleError_6 bind_def)

lemma HTTPError_URLError: "issubclass c HTTPError \<Longrightarrow> issubclass c URLError"
  by (cases c) (simp_all add: issubclass_def)

lemma forwardPort_except_other:
  "\<not> issubclass (exn_cls x) URLError \<Longrightarrow> forwardPort_except endpointURL x w = (Raise x, w)"
  using HTTPError_URLError [of "exn_cls x"] by (auto simp add: forwardPort_except_def)

lemma forwardPort_post_raised:
  assumes "urlopen e endpointURL body timeout = Inl x
           \<or> (\<exists>connection. urlopen e endpointURL body timeout = Inr connection
                 \<and> conn_read connection = Inl x)"
  shows "forwardPort_post e endpointURL body timeout w = forwardPort_except endpointURL x w"
  using assms by (auto simp add: forwardPort_post_def)



lemma example_urlopen:
  "urlopen example_env ''https://api.example/ok'' body seconds =
     Inr \<lparr>conn_read = Inr port_json, content_charset = None\<rparr>"
  "urlopen example_env ''https://api.example/escaped'' body seconds =
     Inr \<lparr>conn_read = Inr ''%257B%257D'', content_charset = Some ''ascii''\<rparr>"
  "urlopen example_env ''https://api.example/once'' body seconds =
     Inr \<lparr>conn_read = Inr ''%7B%7D'', content_charset = Some ''utf-8''\<rparr>"
  "urlopen example_env ''https://api.example/charset'' body seconds =
     Inr \<lparr>conn_read = Inr port_json, content_charset = Some ''x-unknown''\<rparr>"
  "urlopen example_env ''https://api.example/stall'' body seconds =
     Inr \<lparr>conn_read = Inl (Exn TimeoutError ''The read operation timed out''),
         content_charset = None\<rparr>"
  "urlopen example_env ''https://api.example/gone'' body seconds =
     Inl (Exn HTTPError ''HTTP Error 404: Not Found'')"
  "urlopen example_env ''https://nowhere.example/'' body seconds =
     Inl (Exn URLError ''<urlopen error [Errno 111] Connection refused>'')"
  by (simp_all add: example_env_def example_endpoints_def)




lemma getCredentials_except_other:
  "\<not> issubclass (exn_cls x) OSError \<Longrightarrow> \<not> issubclass (exn_cls x) ValueError \<Longrightarrow>
   getCredentials_except path x w = (Raise x, w)"
  by (simp add: getCredentials_except_def)

lemma getCredentials_Raise:
  "getCredentials_load e path w = (Raise x, w1) \<Longrightarrow> getCredentials e path interface w = (Raise x, w1)"
  by (simp add: getCredentials_def bind_def)

lemma getCredentials_load_raised:
  assumes "open_file e path = Inl x \<or> open_file e path = Inr (Inl x)
           \<or> (\<exists>contents. open_file e path = Inr (Inr contents) \<and> json_loads e contents = Inl x)"
  shows "getCredentials_load e path w =
     getCredentials_except path x
       (case open_file e path of
          Inl y \<Rightarrow> w
        | Inr f \<Rightarrow> debugPrint (Some (''Using credentials file: '' @ [sq] @ path @ [sq])) True w)"
  using assms by (auto simp add: getCredentials_load_def Let_def)

subsection \<open>The response classifier\<close>

text \<open>
  Claim C1. Whatever JSON object \<open>forwardPort\<close> hands back, \<open>main\<close> takes exactly one
  of three ways, chosen in a fixed order. With a key \<open>port\<close> it prints the value of
  that key and goes on (success). Otherwise, with a key \<open>error\<close>, it leaves with exit
  code 8 and a message made of the value of that key as it stands. Otherwise it leaves
  with exit code 9 and a message that lists every pair \<open>key: value\<close>, one per line;
  for the empty object the list is empty and the exit code still 9.
\<close>

theorem main_response_dispatch:
  "main_response (PyDict kvs) w =
     (if ''port'' \<in> set (map fst kvs)
      then (Return (),
            w\<lparr>stdout := stdout w @ [''Forwarded port: '' @ str (the (map_of kvs ''port'')), []]\<rparr>)
      else if ''error'' \<in> set (map fst kvs)
      then (Exit 8,
            w\<lparr>stdout := stdout w
                 @ [''API returned an error: '' @ str (the (map_of kvs ''error'')), [],
                    ''Exiting with exit status: 8, main (): API returned an error response'']\<rparr>)
      else (Exit 9,
            w\<lparr>stdout := stdout w
                 @ [''API returned unknown key/value pair(s):'' @ [nl, nl]
                      @ join [nl] (map (\<lambda>kv. fst kv @ '': '' @ str (snd kv)) kvs), [],
                    ''Exiting with exit status: 9, main (): API returned an unknown response'']\<rparr>))"
proof (cases "''port'' \<in> set (map fst kvs)")
  case True
  then show ?thesis
    by (simp add: main_response_def dict_getitem_in print_def)
next
  case noport: False
  show ?thesis
  proof (cases "''error'' \<in> set (map fst kvs)")
    case True
    with noport show ?thesis
      by (simp add: main_response_def dict_getitem_in handleError_8)
  next
    case False
    with noport show ?thesis
      by (simp add: main_response_def concatStringToList_def comp_def handleError_9 Let_def)
  qed
qed

text \<open>
  The three shapes of the specification, and the empty object: \<open>{"port": 12345}\<close>,
  \<open>{"error": "bad token"}\<close>, \<open>{"foo": "bar"}\<close> and \<open>{}\<close>.
\<close>

theorem main_response_dispatch_witness:
  "main_response (PyDict [(''port'', PyInt 12345)]) \<lparr>DEBUG = False, stdout = []\<rparr> =
     (Return (), \<lparr>DEBUG = False, stdout = [''Forwarded port: 12345'', []]\<rparr>)
   \<and> main_response (PyDict [(''error'', PyStr ''bad token'')]) \<lparr>DEBUG = False, stdout = []\<rparr> =
     (Exit 8,
      \<lparr>DEBUG = False,
         stdout = [''API returned an error: bad token'', [],
                   ''Exiting with exit status: 8, main (): API returned an error response'']\<rparr>)
   \<and> main_response (PyDict [(''foo'', PyStr ''bar'')]) \<lparr>DEBUG = False, stdout = []\<rparr> =
     (Exit 9,
      \<lparr>DEBUG = False,
         stdout = [''API returned unknown key/value pair(s):'' @ [nl, nl] @ ''foo: bar'', [],
                   ''Exiting with exit status: 9, main (): API returned an unknown response'']\<rparr>)
   \<and> main_response (PyDict []) \<lparr>DEBUG = False, stdout = []\<rparr> =
     (Exit 9,
      \<lparr>DEBUG = False,
         stdout = [''API returned unknown key/value pair(s):'' @ [nl, nl], [],
                   ''Exiting with exit status: 9, main (): API returned an unknown response'']\<rparr>)"
  using main_response_dispatch [of "[(''port'', PyInt 12345)]" "\<lparr>DEBUG = False, stdout = []\<rparr>"]
    main_response_dispatch [of "[(''error'', PyStr ''bad token'')]" "\<lparr>DEBUG = False, stdout = []\<rparr>"]
    main_response_dispatch [of "[(''foo'', PyStr ''bar'')]" "\<lparr>DEBUG = False, stdout = []\<rparr>"]
    main_response_dispatch [of "[]" "\<lparr>DEBUG = False, stdout = []\<rparr>"]
  by (simp add: show_int_def show_nat.simps digit_def)

subsection \<open>The error reporter\<close>

text \<open>
  Claim C10. The exit codes of the script are those of its table, 0 to 9, and every
  call of \<open>handleError\<close> in the script passes one of them. For every such exit code,
  every message and every optional cause, whichever function calls it,
  \<open>handleError\<close> prints the message and an empty line, then the text of the cause
  and an empty line when a cause is given, then the line
  \<open>Exiting with exit status: code, description\<close> with the description the table
  holds at that code, and ends the process with exactly that code; the flag
  \<open>DEBUG\<close> is left as it was. It never returns to its caller.
\<close>

theorem handleError_reports:
  "(\<forall>u. fst (handleError message exitCode exception w) \<noteq> Return u) \<and>
   (0 \<le> exitCode \<and> exitCode < 10 \<longrightarrow>
      handleError message exitCode exception w =
        (Exit exitCode,
         w\<lparr>stdout := stdout w @ [message, []]
              @ (case exception of None \<Rightarrow> [] | Some e \<Rightarrow> [exn_str e, []])
              @ [''Exiting with exit status: '' @ show_int exitCode @ '', ''
                   @ exitCodes ! nat exitCode]\<rparr>))"
  using handleError_in_table [of exitCode message exception w]
    handleError_not_Return [of message exitCode exception w]
  by simp

theorem handleError_reports_witness:
  "(0::int) \<le> 3 \<and> (3::int) < 10 \<and>
   handleError ''boom'' 3 (Some (Exn JSONDecodeError ''Expecting value''))
       \<lparr>DEBUG = False, stdout = []\<rparr> =
     (Exit 3,
      \<lparr>DEBUG = False,
         stdout = [''boom'', [], ''Expecting value'', [],
                   ''Exiting with exit status: 3, getCredentials (): JSON credentials are malformed'']\<rparr>)"
  using handleError_reports [of "''boom''" 3 "Some (Exn JSONDecodeError ''Expecting value'')"
      "\<lparr>DEBUG = False, stdout = []\<rparr>"]
  by (simp add: exitCodes_def show_int_def show_nat.simps digit_def)


subsection \<open>The interface inspector\<close>

text \<open>
  Claim C6. For every interface name, \<open>isConnected\<close> returns \<open>False\<close> when the
  operating system's table has no such interface, and otherwise returns \<open>True\<close>
  exactly when the address table of the interface has an entry of the IPv4 family; no
  link state is read, the table of addresses decides alone. On a table as
  \<open>netifaces\<close> builds it (a family listed has an address) that is: exactly when the
  interface has at least one IPv4 address. The call never raises and leaves the flag
  \<open>DEBUG\<close> as it was.
\<close>

theorem isConnected_iff:
  "(interface \<notin> set (netifaces_interfaces e) \<longrightarrow> isConnected e interface w = (Return False, w))
   \<and> (\<forall>fams. map_of (iftable e) interface = Some fams \<longrightarrow>
         fst (isConnected e interface w) = Return (AF_INET \<in> set (map fst fams)))
   \<and> (netifaces_table e \<longrightarrow>
         fst (isConnected e interface w) = Return (ipv4_addresses e interface \<noteq> []))
   \<and> DEBUG (snd (isConnected e interface w)) = DEBUG w"
proof (intro conjI impI allI)
  assume "interface \<notin> set (netifaces_interfaces e)"
  then show "isConnected e interface w = (Return False, w)"
    by (simp add: isConnected_def)
next
  fix fams
  assume "map_of (iftable e) interface = Some fams"
  then show "fst (isConnected e interface w) = Return (AF_INET \<in> set (map fst fams))"
    using map_of_interfaces [of interface e]
    by (simp add: isConnected_def netifaces_ifaddresses_def Let_def)
next
  assume wf: "netifaces_table e"
  show "fst (isConnected e interface w) = Return (ipv4_addresses e interface \<noteq> [])"
  proof (cases "map_of (iftable e) interface")
    case None
    then show ?thesis
      using map_of_interfaces [of interface e]
      by (simp add: isConnected_def ipv4_addresses_def)
  next
    case (Some fams)
    have "AF_INET \<in> set (map fst fams) \<longleftrightarrow> ipv4_addresses e interface \<noteq> []"
    proof (cases "map_of fams AF_INET")
      case None
      with Some show ?thesis
        using in_keys_iff [of AF_INET fams] by (simp add: ipv4_addresses_def)
    next
      case inet: (Some l)
      from netifaces_table_family(1) [OF wf Some inet] have "l \<noteq> []" .
      moreover from inet have "AF_INET \<in> set (map fst fams)"
        using in_keys_iff [of AF_INET fams] by simp
      ultimately show ?thesis using Some inet by (simp add: ipv4_addresses_def)
    qed
    with Some show ?thesis
      using map_of_interfaces [of interface e]
      by (simp add: isConnected_def netifaces_ifaddresses_def Let_def)
  qed
next
  show "DEBUG (snd (isConnected e interface w)) = DEBUG w"
    by (simp add: isConnected_def Let_def debugPrint_DEBUG split: sum.splits)
qed

text \<open>
  On the example machine: \<open>wg0\<close> does not exist, \<open>sit0\<close> has no IPv4 address,
  \<open>eth0\<close> has two and \<open>tun0\<close> one.
\<close>

theorem isConnected_iff_witness:
  "''wg0'' \<notin> set (netifaces_interfaces example_env)
   \<and> isConnected example_env ''wg0'' w0 = (Return False, w0)
   \<and> netifaces_table example_env
   \<and> ipv4_addresses example_env ''sit0'' = []
   \<and> fst (isConnected example_env ''sit0'' w0) = Return False
   \<and> length (ipv4_addresses example_env ''eth0'') = 2
   \<and> fst (isConnected example_env ''eth0'' w0) = Return True
   \<and> fst (isConnected example_env ''tun0'' w0) = Return True"
  using isConnected_iff [of "''wg0''" example_env w0] isConnected_iff [of "''sit0''" example_env w0]
    isConnected_iff [of "''eth0''" example_env w0] isConnected_iff [of "''tun0''" example_env w0]
  by (simp add: netifaces_table_def netifaces_interfaces_def ipv4_addresses_def example_env_def
      example_iftable_def AF_INET_def)


text \<open>
  Claim C7. For every interface with more than one IPv4 address, \<open>getIPAddress\<close>
  ends the process with exit code 5, and the message it prints holds the text of every
  address record found, one per line, hence the text of every address. For every
  interface with exactly one IPv4 address it returns the \<open>addr\<close> of that record as
  it stands; the process state is as before, but for the two lines that
  \<open>debugPrint\<close> writes when \<open>DEBUG\<close> is set.
\<close>

theorem getIPAddress_count:
  "(1 < length (ipv4_addresses e interface) \<longrightarrow>
      getIPAddress e interface w =
        (Exit 5,
         w\<lparr>stdout := stdout w
              @ [tooManyMessage (length (ipv4_addresses e interface)) interface
                   @ join [nl] (map (\<lambda>a. str (address_val a)) (ipv4_addresses e interface)), [],
                 ''Exiting with exit status: 5, getIPAddress (): Found more addresses than expected'']\<rparr>)
      \<and> (\<forall>a \<in> set (ipv4_addresses e interface).
            contains_str
              (tooManyMessage (length (ipv4_addresses e interface)) interface
                 @ join [nl] (map (\<lambda>a. str (address_val a)) (ipv4_addresses e interface)))
              (str (address_val a))
            \<and> (\<forall>ip. map_of a ''addr'' = Some ip \<and> plain ip \<longrightarrow>
                  contains_str
                    (tooManyMessage (length (ipv4_addresses e interface)) interface
                       @ join [nl] (map (\<lambda>a. str (address_val a)) (ipv4_addresses e interface)))
                    ip)))
   \<and> (\<forall>a ip. ipv4_addresses e interface = [a] \<and> map_of a ''addr'' = Some ip \<longrightarrow>
         getIPAddress e interface w =
           (Return ip,
            w\<lparr>stdout := stdout w
                 @ (if DEBUG w
                    then [''Local IP for VPN interface '' @ [sq] @ interface @ [sq] @ '': '' @ ip, []]
                    else [])\<rparr>))"
proof (intro conjI impI allI ballI)
  assume many: "1 < length (ipv4_addresses e interface)"
  then have "ipv4_addresses e interface \<noteq> []" by auto
  with ipv4_addresses_lookup obtain fams where
    "netifaces_ifaddresses e interface = Inr fams"
    "map_of fams AF_INET = Some (ipv4_addresses e interface)"
    by blast
  with many show "getIPAddress e interface w =
        (Exit 5,
         w\<lparr>stdout := stdout w
              @ [tooManyMessage (length (ipv4_addresses e interface)) interface
                   @ join [nl] (map (\<lambda>a. str (address_val a)) (ipv4_addresses e interface)), [],
                 ''Exiting with exit status: 5, getIPAddress (): Found more addresses than expected'']\<rparr>)"
    by (rule getIPAddress_many [rotated 2])
next
  fix a
  assume a: "a \<in> set (ipv4_addresses e interface)"
  let ?l = "ipv4_addresses e interface"
  let ?msg = "tooManyMessage (length ?l) interface @ join [nl] (map (\<lambda>a. str (address_val a)) ?l)"
  from a have "str (address_val a) \<in> set (map (\<lambda>a. str (address_val a)) ?l)" by simp
  then obtain x y where "join [nl] (map (\<lambda>a. str (address_val a)) ?l) = x @ str (address_val a) @ y"
    using join_member by blast
  then have "?msg = (tooManyMessage (length ?l) interface @ x) @ str (address_val a) @ y"
    by simp
  then show line: "contains_str ?msg (str (address_val a))"
    unfolding contains_str_iff by blast
  fix ip
  assume "map_of a ''addr'' = Some ip \<and> plain ip"
  then have "contains_str (str (address_val a)) ip"
    by (simp add: repr_address_contains)
  with line show "contains_str ?msg ip"
    by (rule contains_str_trans)
next
  fix a ip
  assume one: "ipv4_addresses e interface = [a] \<and> map_of a ''addr'' = Some ip"
  then obtain fams where
    "netifaces_ifaddresses e interface = Inr fams" "map_of fams AF_INET = Some [a]"
    using ipv4_addresses_lookup [of e interface "[a]"] by auto
  with one show "getIPAddress e interface w =
           (Return ip,
            w\<lparr>stdout := stdout w
                 @ (if DEBUG w
                    then [''Local IP for VPN interface '' @ [sq] @ interface @ [sq] @ '': '' @ ip, []]
                    else [])\<rparr>)"
    by (simp add: getIPAddress_one)
qed

text \<open>On the example machine: \<open>eth0\<close> has two IPv4 addresses, \<open>tun0\<close> has one.\<close>

theorem getIPAddress_count_witness:
  "1 < length (ipv4_addresses example_env ''eth0'')
   \<and> fst (getIPAddress example_env ''eth0'' w0) = Exit 5
   \<and> length (stdout (snd (getIPAddress example_env ''eth0'' w0))) = 3
   \<and> contains_str (hd (stdout (snd (getIPAddress example_env ''eth0'' w0)))) ''192.168.1.10''
   \<and> contains_str (hd (stdout (snd (getIPAddress example_env ''eth0'' w0)))) ''192.168.1.11''
   \<and> getIPAddress example_env ''tun0'' w0 = (Return ''10.8.0.6'', w0)
   \<and> getIPAddress example_env ''tun0'' w_debug =
       (Return ''10.8.0.6'',
        \<lparr>DEBUG = True,
           stdout = [''Local IP for VPN interface '' @ [sq] @ ''tun0'' @ [sq] @ '': 10.8.0.6'', []]\<rparr>)"
  using getIPAddress_count [of example_env "''eth0''" w0]
    getIPAddress_count [of example_env "''tun0''" w0]
    getIPAddress_count [of example_env "''tun0''" w_debug]
  by (simp add: example_eth0 example_tun0 plain_examples w0_def w_debug_def)


text \<open>
  Claim C8. Once \<open>isConnected\<close> has returned \<open>True\<close> for an interface, the lookup
  of the IPv4 family in \<open>getIPAddress\<close> finds its list of addresses on the same
  table, whatever was printed in between: the \<open>KeyError\<close> of a missing family is
  never raised. On a table as \<open>netifaces\<close> builds it the list is not empty and its
  records carry their \<open>addr\<close>, so \<open>getIPAddress\<close> raises nothing at all: it
  returns an address, or ends the process with exit code 5 when there are several.
\<close>

theorem getIPAddress_after_isConnected:
  "fst (isConnected e interface w) = Return True \<longrightarrow>
     (\<exists>fams addressList.
        netifaces_ifaddresses e interface = Inr fams \<and> map_of fams AF_INET = Some addressList)
     \<and> fst (getIPAddress e interface w') \<noteq> Raise (Exn KeyError (show_int AF_INET))
     \<and> (netifaces_table e \<longrightarrow>
          (\<exists>ip. fst (getIPAddress e interface w') = Return ip)
          \<or> fst (getIPAddress e interface w') = Exit 5)"
proof (intro impI conjI)
  assume c: "fst (isConnected e interface w) = Return True"
  then obtain fams l where
    look: "netifaces_ifaddresses e interface = Inr fams" and l: "map_of fams AF_INET = Some l"
    using isConnected_True_lookup by blast
  then show "\<exists>fams addressList.
        netifaces_ifaddresses e interface = Inr fams \<and> map_of fams AF_INET = Some addressList"
    by blast
  show "fst (getIPAddress e interface w') \<noteq> Raise (Exn KeyError (show_int AF_INET))"
  proof (cases "1 < length l")
    case True
    with getIPAddress_many [OF look l] show ?thesis by simp
  next
    case False
    have key: "repr_str ''addr'' \<noteq> show_int AF_INET"
      by (simp add: repr_str_def Let_def show_int_def show_nat.simps AF_INET_def digit_def sq_def dq_def)
    from False look l have "getIPAddress e interface w' =
        (case py_index l 0 of
           Inl x \<Rightarrow> (Raise x, w')
         | Inr address \<Rightarrow>
             (case dict_getitem address ''addr'' of
                Inl x \<Rightarrow> (Raise x, w')
              | Inr ip \<Rightarrow>
                  (Return ip,
                   debugPrint
                     (Some (''Local IP for VPN interface '' @ [sq] @ interface @ [sq] @ '': '' @ ip))
                     True w')))"
      by (simp add: getIPAddress_def ADDRESS_LIMIT_def bind_def)
    then show ?thesis
      using key
      by (simp add: py_index_def dict_getitem_def split: sum.splits option.splits)
  qed
  assume "netifaces_table e"
  moreover from look have "map_of (iftable e) interface = Some fams"
    by (simp add: netifaces_ifaddresses_def split: option.splits)
  ultimately show "(\<exists>ip. fst (getIPAddress e interface w') = Return ip)
          \<or> fst (getIPAddress e interface w') = Exit 5"
    using l by (simp add: getIPAddress_total)
qed

text \<open>On the example machine, for \<open>tun0\<close> and for \<open>eth0\<close>.\<close>

theorem getIPAddress_after_isConnected_witness:
  "fst (isConnected example_env ''tun0'' w0) = Return True
   \<and> netifaces_table example_env
   \<and> fst (getIPAddress example_env ''tun0'' w0) = Return ''10.8.0.6''
   \<and> fst (isConnected example_env ''eth0'' w0) = Return True
   \<and> fst (getIPAddress example_env ''eth0'' w0) = Exit 5"
proof -
  have tun: "fst (isConnected example_env ''tun0'' w0) = Return True"
    and eth: "fst (isConnected example_env ''eth0'' w0) = Return True"
    by (simp_all add: isConnected_def netifaces_interfaces_def netifaces_ifaddresses_def
        example_env_def example_iftable_def AF_INET_def)
  have one: "fst (getIPAddress example_env ''tun0'' w0) \<noteq> Exit 5"
    by (simp add: getIPAddress_def netifaces_ifaddresses_def example_env_def example_iftable_def
        AF_INET_def ADDRESS_LIMIT_def bind_def py_index_def dict_getitem_def)
  have ip: "fst (getIPAddress example_env ''tun0'' w0) = Return ip \<Longrightarrow> ip = ''10.8.0.6''" for ip
    by (simp add: getIPAddress_def netifaces_ifaddresses_def example_env_def example_iftable_def
        AF_INET_def ADDRESS_LIMIT_def bind_def py_index_def dict_getitem_def)
  have two: "\<nexists>ip. fst (getIPAddress example_env ''eth0'' w0) = Return ip"
    by (simp add: getIPAddress_def netifaces_ifaddresses_def example_env_def example_iftable_def
        AF_INET_def ADDRESS_LIMIT_def bind_def handleError_5)
  from getIPAddress_after_isConnected [of example_env "''tun0''" w0 w0]
    getIPAddress_after_isConnected [of example_env "''eth0''" w0 w0]
    tun eth one two ip example_table_ok
  show ?thesis by auto
qed


subsection \<open>The credential loader\<close>

text \<open>
  Claim C9, as the specification states it: \<open>getCredentials\<close> ends with exit code 2
  for every file that cannot be opened or read, and with exit code 3 for every readable
  file whose contents are no JSON, and nothing else can happen before the parse
  succeeds. The handlers choose by the class of the exception, not by the step that
  failed: the file \<open>latin.json\<close> opens, its bytes are no text in the encoding of
  \<open>open\<close>, \<open>read\<close> raises \<open>UnicodeDecodeError\<close>, a \<open>ValueError\<close>, and the
  process ends with exit code 3, not 2.
\<close>

theorem getCredentials_unreadable_counterexample:
  "open_file example_env ''latin.json'' = Inr (Inl (Exn UnicodeDecodeError ''invalid start byte''))
   \<and> fst (getCredentials example_env ''latin.json'' ''tun0'' w0) = Exit 3
   \<and> fst (getCredentials example_env ''latin.json'' ''tun0'' w0) \<noteq> Exit 2"
proof -
  have v: "issubclass (exn_cls (Exn UnicodeDecodeError ''invalid start byte'')) ValueError"
    by (simp add: issubclass_def)
  have "getCredentials_load example_env ''latin.json'' w0 =
      (getCredentials_except ''latin.json'' (Exn UnicodeDecodeError ''invalid start byte'')
         (debugPrint (Some (''Using credentials file: '' @ [sq] @ ''latin.json'' @ [sq])) True w0)
       :: pyval option result \<times> world)"
    using getCredentials_load_raised
      [of example_env "''latin.json''" "Exn UnicodeDecodeError ''invalid start byte''" w0]
    by (simp add: example_open)
  then obtain w1 where "getCredentials_load example_env ''latin.json'' w0 = (Exit 3, w1)"
    unfolding getCredentials_except_ValueError [OF v] by blast
  from getCredentials_Exit [OF this, of "''tun0''"] show ?thesis
    by (simp add: example_open)
qed

text \<open>
  Claim C9, amended: whatever \<open>open\<close>, \<open>read\<close> or \<open>json.loads\<close> raises,
  \<open>getCredentials\<close> chooses by the class of the exception. An \<open>OSError\<close> (a
  missing file, a permission denied, any other failure of the operating system) ends
  the process with exit code 2; a \<open>ValueError\<close> (text that is no JSON, and also bytes
  that \<open>read\<close> cannot decode) ends it with exit code 3; both print the message, the
  text of the cause and the exit line. These are the only two exits before the parse
  succeeds: an exception of any other class is not caught and leaves
  \<open>getCredentials\<close> as it is, and when nothing is raised the parsed document is
  handed on.
\<close>

theorem getCredentials_load_dispatch:
  "((open_file e path = Inl x \<or> open_file e path = Inr (Inl x)
       \<or> (\<exists>contents. open_file e path = Inr (Inr contents) \<and> json_loads e contents = Inl x))
      \<and> w1 = (case open_file e path of
                 Inl y \<Rightarrow> w
               | Inr f \<Rightarrow> debugPrint (Some (''Using credentials file: '' @ [sq] @ path @ [sq])) True w)
    \<longrightarrow>
      getCredentials e path interface w =
        (if issubclass (exn_cls x) OSError
         then (Exit 2,
               w1\<lparr>stdout := stdout w1
                    @ [''Credentials file: '' @ [sq] @ path @ [sq]
                         @ '' does not exist or cannot be opened'',
                       [], exn_str x, [],
                       ''Exiting with exit status: 2, getCredentials (): Credentials file cannot be opened'']\<rparr>)
         else if issubclass (exn_cls x) ValueError
         then (Exit 3,
               w1\<lparr>stdout := stdout w1
                    @ [''JSON file: '' @ [sq] @ path @ [sq]
                         @ '' is malformed, refer to the README or the exception message below for the correct format'',
                       [], exn_str x, [],
                       ''Exiting with exit status: 3, getCredentials (): JSON credentials are malformed'']\<rparr>)
         else (Raise x, w1)))
   \<and> (\<forall>contents v. open_file e path = Inr (Inr contents) \<and> json_loads e contents = Inr v \<longrightarrow>
         getCredentials_load e path w =
           (Return (Some v),
            debugPrint (Some (''Using credentials file: '' @ [sq] @ path @ [sq])) True w))"
proof (intro conjI impI allI)
  assume h: "(open_file e path = Inl x \<or> open_file e path = Inr (Inl x)
       \<or> (\<exists>contents. open_file e path = Inr (Inr contents) \<and> json_loads e contents = Inl x))
      \<and> w1 = (case open_file e path of
                 Inl y \<Rightarrow> w
               | Inr f \<Rightarrow> debugPrint (Some (''Using credentials file: '' @ [sq] @ path @ [sq])) True w)"
  then have load: "getCredentials_load e path w =
      (getCredentials_except path x w1 :: pyval option result \<times> world)"
    using getCredentials_load_raised [of e path x w] by simp
  show "getCredentials e path interface w =
        (if issubclass (exn_cls x) OSError
         then (Exit 2,
               w1\<lparr>stdout := stdout w1
                    @ [''Credentials file: '' @ [sq] @ path @ [sq]
                         @ '' does not exist or cannot be opened'',
                       [], exn_str x, [],
                       ''Exiting with exit status: 2, getCredentials (): Credentials file cannot be opened'']\<rparr>)
         else if issubclass (exn_cls x) ValueError
         then (Exit 3,
               w1\<lparr>stdout := stdout w1
                    @ [''JSON file: '' @ [sq] @ path @ [sq]
                         @ '' is malformed, refer to the README or the exception message below for the correct format'',
                       [], exn_str x, [],
                       ''Exiting with exit status: 3, getCredentials (): JSON credentials are malformed'']\<rparr>)
         else (Raise x, w1))"
  proof (cases "issubclass (exn_cls x) OSError")
    case True
    from load have "getCredentials_load e path w =
        (Exit 2,
         w1\<lparr>stdout := stdout w1
              @ [''Credentials file: '' @ [sq] @ path @ [sq]
                   @ '' does not exist or cannot be opened'',
                 [], exn_str x, [],
                 ''Exiting with exit status: 2, getCredentials (): Credentials file cannot be opened'']\<rparr>)"
      unfolding getCredentials_except_OSError [OF True] .
    from getCredentials_Exit [OF this] True show ?thesis
      by (simp only: if_True)
  next
    case os: False
    show ?thesis
    proof (cases "issubclass (exn_cls x) ValueError")
      case True
      from load have "getCredentials_load e path w =
          (Exit 3,
           w1\<lparr>stdout := stdout w1
                @ [''JSON file: '' @ [sq] @ path @ [sq]
                     @ '' is malformed, refer to the README or the exception message below for the correct format'',
                   [], exn_str x, [],
                   ''Exiting with exit status: 3, getCredentials (): JSON credentials are malformed'']\<rparr>)"
        unfolding getCredentials_except_ValueError [OF True] .
      from getCredentials_Exit [OF this] os True show ?thesis
        by (simp only: if_True if_False)
    next
      case False
      from load have "getCredentials_load e path w = (Raise x, w1)"
        unfolding getCredentials_except_other [OF os False] .
      from getCredentials_Raise [OF this] os False show ?thesis
        by (simp only: if_False)
    qed
  qed
next
  fix contents v
  assume "open_file e path = Inr (Inr contents) \<and> json_loads e contents = Inr v"
  then show "getCredentials_load e path w =
           (Return (Some v),
            debugPrint (Some (''Using credentials file: '' @ [sq] @ path @ [sq])) True w)"
    by (simp add: getCredentials_load_parsed)
qed


text \<open>
  On the example machine: a file that does not exist, one that may not be read, one on a
  failing device, one that holds \<open>{user: \<close>, one whose bytes are no text, one nested
  deeper than the interpreter follows, and one that parses.
\<close>

theorem getCredentials_load_dispatch_witness:
  "open_file example_env ''nothing.json'' =
     Inl (Exn FileNotFoundError ''[Errno 2] No such file or directory'')
   \<and> issubclass FileNotFoundError OSError
   \<and> getCredentials example_env ''nothing.json'' ''tun0'' w0 =
       (Exit 2,
        \<lparr>DEBUG = False,
           stdout = [''Credentials file: '' @ [sq] @ ''nothing.json'' @ [sq]
                       @ '' does not exist or cannot be opened'', [],
                     ''[Errno 2] No such file or directory'', [],
                     ''Exiting with exit status: 2, getCredentials (): Credentials file cannot be opened'']\<rparr>)
   \<and> issubclass PermissionError OSError
   \<and> fst (getCredentials example_env ''secret.json'' ''tun0'' w0) = Exit 2
   \<and> open_file example_env ''stale.json'' = Inr (Inl (Exn OSError ''[Errno 5] Input/output error''))
   \<and> getCredentials example_env ''stale.json'' ''tun0'' w0 =
       (Exit 2,
        \<lparr>DEBUG = False,
           stdout = [''Credentials file: '' @ [sq] @ ''stale.json'' @ [sq]
                       @ '' does not exist or cannot be opened'', [],
                     ''[Errno 5] Input/output error'', [],
                     ''Exiting with exit status: 2, getCredentials (): Credentials file cannot be opened'']\<rparr>)
   \<and> json_loads example_env ''{user: '' =
       Inl (Exn JSONDecodeError ''Expecting value: line 1 column 1 (char 0)'')
   \<and> issubclass JSONDecodeError ValueError \<and> \<not> issubclass JSONDecodeError OSError
   \<and> getCredentials example_env ''broken.json'' ''tun0'' w0 =
       (Exit 3,
        \<lparr>DEBUG = False,
           stdout = [''JSON file: '' @ [sq] @ ''broken.json'' @ [sq]
                       @ '' is malformed, refer to the README or the exception message below for the correct format'',
                     [], ''Expecting value: line 1 column 1 (char 0)'', [],
                     ''Exiting with exit status: 3, getCredentials (): JSON credentials are malformed'']\<rparr>)
   \<and> issubclass UnicodeDecodeError ValueError \<and> \<not> issubclass UnicodeDecodeError OSError
   \<and> fst (getCredentials example_env ''latin.json'' ''tun0'' w0) = Exit 3
   \<and> \<not> issubclass RecursionError OSError \<and> \<not> issubclass RecursionError ValueError
   \<and> getCredentials example_env ''deep.json'' ''tun0'' w0 =
       (Raise (Exn RecursionError ''maximum recursion depth exceeded while decoding a JSON array''), w0)
   \<and> fst (getCredentials_load example_env ''full.json'' w0) =
       Return (Some (PyDict [(''user'', PyStr ''p1234567''), (''pass'', PyStr ''hunter2''),
                             (''client_id'', PyStr ''0f3c'')]))"
proof -
  have sub: "issubclass FileNotFoundError OSError" "issubclass PermissionError OSError"
    "issubclass OSError OSError" "issubclass JSONDecodeError ValueError"
    "\<not> issubclass JSONDecodeError OSError" "issubclass UnicodeDecodeError ValueError"
    "\<not> issubclass UnicodeDecodeError OSError" "\<not> issubclass RecursionError OSError"
    "\<not> issubclass RecursionError ValueError"
    by (simp_all add: issubclass_def)
  have quiet: "debugPrint m n w0 = w0" for m n
    by (simp add: debugPrint_def w0_def split: option.splits)
  from getCredentials_load_dispatch
      [of example_env "''nothing.json''" "Exn FileNotFoundError ''[Errno 2] No such file or directory''"
        w0 w0 "''tun0''"]
    getCredentials_load_dispatch
      [of example_env "''secret.json''" "Exn PermissionError ''[Errno 13] Permission denied''"
        w0 w0 "''tun0''"]
    getCredentials_load_dispatch
      [of example_env "''stale.json''" "Exn OSError ''[Errno 5] Input/output error''" w0 w0 "''tun0''"]
    getCredentials_load_dispatch
      [of example_env "''broken.json''"
        "Exn JSONDecodeError ''Expecting value: line 1 column 1 (char 0)''" w0 w0 "''tun0''"]
    getCredentials_load_dispatch
      [of example_env "''latin.json''" "Exn UnicodeDecodeError ''invalid start byte''" w0 w0 "''tun0''"]
    getCredentials_load_dispatch
      [of example_env "''deep.json''"
        "Exn RecursionError ''maximum recursion depth exceeded while decoding a JSON array''"
        w0 w0 "''tun0''"]
    getCredentials_load_dispatch [of example_env "''full.json''" _ _ w0]
  show ?thesis
    by (simp add: example_open example_loads sub quiet) (simp add: w0_def)
qed

text \<open>
  Claim C2, as the specification states it: for every credentials file that parses as a
  JSON object, \<open>getCredentials\<close> ends with exit code 4 exactly when the file has none
  of the keys \<open>user\<close>, \<open>pass\<close>, \<open>client_id\<close>. The script asks
  \<open>getIPAddress\<close> for the local address before it looks at the keys: with the file
  \<open>{}\<close> and an interface of two IPv4 addresses the process ends with exit code 5,
  not 4.
\<close>

theorem getCredentials_validation_counterexample:
  "open_file example_env ''empty.json'' = Inr (Inr ''{}'')
   \<and> json_loads example_env ''{}'' = Inr (PyDict [])
   \<and> set (map fst ([] :: (string \<times> pyval) list)) \<inter> {''user'', ''pass'', ''client_id''} = {}
   \<and> length (ipv4_addresses example_env ''eth0'') = 2
   \<and> fst (getCredentials example_env ''empty.json'' ''eth0'' w0) = Exit 5
   \<and> fst (getCredentials example_env ''empty.json'' ''eth0'' w0) \<noteq> Exit 4"
  using getCredentials_two_addresses [of example_env "''empty.json''" "''{}''" "PyDict []" "''eth0''" w0]
  by (simp add: example_open example_loads example_eth0)



text \<open>
  Claim C2, amended: for every credentials file that parses as a JSON object, on an
  interface with exactly one IPv4 address, \<open>getCredentials\<close> ends with exit code 4
  exactly when the file has none of the keys \<open>user\<close>, \<open>pass\<close>,
  \<open>client_id\<close> (one of them is enough to pass the check); and when the file has all
  three it returns the mapping of the file with \<open>local_ip\<close> set to that address,
  the values of \<open>user\<close>, \<open>pass\<close> and \<open>client_id\<close> as the file gives them.
\<close>

theorem getCredentials_validation:
  "open_file e path = Inr (Inr contents) \<and> json_loads e contents = Inr (PyDict kvs)
     \<and> ipv4_addresses e interface = [a] \<and> map_of a ''addr'' = Some ip \<longrightarrow>
   (fst (getCredentials e path interface w) = Exit 4
      \<longleftrightarrow> set (map fst kvs) \<inter> {''user'', ''pass'', ''client_id''} = {})
   \<and> ({''user'', ''pass'', ''client_id''} \<subseteq> set (map fst kvs) \<longrightarrow>
        fst (getCredentials e path interface w) = Return (dict_setitem kvs ''local_ip'' (PyStr ip))
        \<and> map_of (dict_setitem kvs ''local_ip'' (PyStr ip)) ''local_ip'' = Some (PyStr ip)
        \<and> (\<forall>k \<in> {''user'', ''pass'', ''client_id''}.
              map_of (dict_setitem kvs ''local_ip'' (PyStr ip)) k = map_of kvs k
              \<and> map_of kvs k \<noteq> None))"
proof (intro impI)
  assume h: "open_file e path = Inr (Inr contents) \<and> json_loads e contents = Inr (PyDict kvs)
     \<and> ipv4_addresses e interface = [a] \<and> map_of a ''addr'' = Some ip"
  let ?creds = "dict_setitem kvs ''local_ip'' (PyStr ip)"
  from h obtain w2 where run: "getCredentials e path interface w = getCredentials_check path ?creds w2"
    using getCredentials_object [of e path contents kvs interface a ip w] by blast
  have keys: "k \<in> set (map fst ?creds) \<longleftrightarrow> k \<in> set (map fst kvs)"
    if "k \<in> {''user'', ''pass'', ''client_id''}" for k
    using that by (auto simp add: dict_setitem_keys simp del: set_map)
  have res: "fst (getCredentials e path interface w) =
     (if set (map fst kvs) \<inter> {''user'', ''pass'', ''client_id''} = {} then Exit 4
      else if ''user'' \<notin> set (map fst kvs) then Raise (Exn KeyError (repr_str ''user''))
      else if ''pass'' \<notin> set (map fst kvs) then Raise (Exn KeyError (repr_str ''pass''))
      else if ''client_id'' \<notin> set (map fst kvs) then Raise (Exn KeyError (repr_str ''client_id''))
      else Return ?creds)"
  proof -
    have "(\<exists>k \<in> set (map fst ?creds). k \<in> set required_keys)
        \<longleftrightarrow> set (map fst kvs) \<inter> {''user'', ''pass'', ''client_id''} \<noteq> {}"
      using keys by (auto simp add: required_keys_def simp del: set_map)
    then show ?thesis
      unfolding run getCredentials_check_result using keys by (simp del: set_map)
  qed
  show "(fst (getCredentials e path interface w) = Exit 4
      \<longleftrightarrow> set (map fst kvs) \<inter> {''user'', ''pass'', ''client_id''} = {})
   \<and> ({''user'', ''pass'', ''client_id''} \<subseteq> set (map fst kvs) \<longrightarrow>
        fst (getCredentials e path interface w) = Return ?creds
        \<and> map_of ?creds ''local_ip'' = Some (PyStr ip)
        \<and> (\<forall>k \<in> {''user'', ''pass'', ''client_id''}.
              map_of ?creds k = map_of kvs k \<and> map_of kvs k \<noteq> None))"
  proof (intro conjI impI ballI)
    show "fst (getCredentials e path interface w) = Exit 4
      \<longleftrightarrow> set (map fst kvs) \<inter> {''user'', ''pass'', ''client_id''} = {}"
      unfolding res by simp
  next
    assume "{''user'', ''pass'', ''client_id''} \<subseteq> set (map fst kvs)"
    then show "fst (getCredentials e path interface w) = Return ?creds"
      unfolding res by (auto simp del: set_map)
  next
    show "map_of ?creds ''local_ip'' = Some (PyStr ip)"
      by (simp add: map_of_dict_setitem)
  next
    fix k :: string
    assume "k \<in> {''user'', ''pass'', ''client_id''}"
    then show "map_of ?creds k = map_of kvs k"
      by (auto simp add: map_of_dict_setitem)
  next
    fix k :: string
    assume "{''user'', ''pass'', ''client_id''} \<subseteq> set (map fst kvs)"
      and "k \<in> {''user'', ''pass'', ''client_id''}"
    then have "k \<in> set (map fst kvs)" by blast
    then show "map_of kvs k \<noteq> None"
      using in_keys_iff [of k kvs] by simp
  qed
qed

text \<open>
  On the example machine, with the tunnel \<open>tun0\<close>: a file with the three keys, a
  file with none of them, and a file with \<open>user\<close> alone.
\<close>

theorem getCredentials_validation_witness:
  "open_file example_env ''full.json'' = Inr (Inr full_json)
   \<and> json_loads example_env full_json =
       Inr (PyDict [(''user'', PyStr ''p1234567''), (''pass'', PyStr ''hunter2''),
                    (''client_id'', PyStr ''0f3c'')])
   \<and> fst (getCredentials example_env ''full.json'' ''tun0'' w0) =
       Return [(''user'', PyStr ''p1234567''), (''pass'', PyStr ''hunter2''),
               (''client_id'', PyStr ''0f3c''), (''local_ip'', PyStr ''10.8.0.6'')]
   \<and> fst (getCredentials example_env ''other.json'' ''tun0'' w0) = Exit 4
   \<and> fst (getCredentials example_env ''partial.json'' ''tun0'' w0) \<noteq> Exit 4"
proof -
  let ?a = "[(''addr'', ''10.8.0.6''), (''netmask'', ''255.255.255.255''), (''peer'', ''10.8.0.5'')]"
  from getCredentials_validation [of example_env "''full.json''" full_json
      "[(''user'', PyStr ''p1234567''), (''pass'', PyStr ''hunter2''), (''client_id'', PyStr ''0f3c'')]"
      "''tun0''" ?a "''10.8.0.6''" w0]
    getCredentials_validation [of example_env "''other.json''" other_json
      "[(''name'', PyStr ''p1234567'')]" "''tun0''" ?a "''10.8.0.6''" w0]
    getCredentials_validation [of example_env "''partial.json''" partial_json
      "[(''user'', PyStr ''p1234567'')]" "''tun0''" ?a "''10.8.0.6''" w0]
  show ?thesis
    by (simp add: example_open example_loads example_single)
qed

text \<open>
  Claim C3, as stated: for every credentials file with at least one but not all of the
  three keys, \<open>getCredentials\<close> raises \<open>KeyError\<close>. Here too the local address
  comes first: with the file \<open>{"user": "p1234567"}\<close> and an interface of two IPv4
  addresses the process ends through \<open>handleError\<close> with exit code 5.
\<close>

theorem getCredentials_partial_KeyError_counterexample:
  "open_file example_env ''partial.json'' = Inr (Inr partial_json)
   \<and> json_loads example_env partial_json = Inr (PyDict [(''user'', PyStr ''p1234567'')])
   \<and> ''user'' \<in> set (map fst [(''user'', PyStr ''p1234567'')])
   \<and> ''pass'' \<notin> set (map fst [(''user'', PyStr ''p1234567'')])
   \<and> length (ipv4_addresses example_env ''eth0'') = 2
   \<and> fst (getCredentials example_env ''partial.json'' ''eth0'' w0) = Exit 5"
  using getCredentials_two_addresses [of example_env "''partial.json''" partial_json
      "PyDict [(''user'', PyStr ''p1234567'')]" "''eth0''" w0]
  by (simp add: example_open example_loads example_eth0)

text \<open>
  Claim C3, amended: for every credentials file that parses as a JSON object with at
  least one but not all of the keys \<open>user\<close>, \<open>pass\<close>, \<open>client_id\<close>, on an
  interface with exactly one IPv4 address, \<open>getCredentials\<close> raises the
  \<open>KeyError\<close> of the first key missing, in the order \<open>user\<close>, \<open>pass\<close>,
  \<open>client_id\<close>: the arguments of the three \<open>debugPrint\<close> calls are evaluated
  whether \<open>DEBUG\<close> is set or not. It neither returns nor ends through
  \<open>handleError\<close>.
\<close>

theorem getCredentials_partial_KeyError:
  "open_file e path = Inr (Inr contents) \<and> json_loads e contents = Inr (PyDict kvs)
     \<and> ipv4_addresses e interface = [a] \<and> map_of a ''addr'' = Some ip
     \<and> set (map fst kvs) \<inter> {''user'', ''pass'', ''client_id''} \<noteq> {}
     \<and> \<not> {''user'', ''pass'', ''client_id''} \<subseteq> set (map fst kvs) \<longrightarrow>
   fst (getCredentials e path interface w) =
     Raise (Exn KeyError
              (repr_str (hd (filter (\<lambda>k. k \<notin> set (map fst kvs)) [''user'', ''pass'', ''client_id'']))))"
proof (intro impI)
  assume h: "open_file e path = Inr (Inr contents) \<and> json_loads e contents = Inr (PyDict kvs)
     \<and> ipv4_addresses e interface = [a] \<and> map_of a ''addr'' = Some ip
     \<and> set (map fst kvs) \<inter> {''user'', ''pass'', ''client_id''} \<noteq> {}
     \<and> \<not> {''user'', ''pass'', ''client_id''} \<subseteq> set (map fst kvs)"
  let ?creds = "dict_setitem kvs ''local_ip'' (PyStr ip)"
  from h obtain w2 where run: "getCredentials e path interface w = getCredentials_check path ?creds w2"
    using getCredentials_object [of e path contents kvs interface a ip w] by blast
  have keys: "k \<in> set (map fst ?creds) \<longleftrightarrow> k \<in> set (map fst kvs)"
    if "k \<in> {''user'', ''pass'', ''client_id''}" for k
    using that by (auto simp add: dict_setitem_keys simp del: set_map)
  from h have some: "\<exists>k \<in> set (map fst ?creds). k \<in> set required_keys"
    using keys by (auto simp add: required_keys_def simp del: set_map)
  from h have missing: "''user'' \<notin> set (map fst kvs) \<or> ''pass'' \<notin> set (map fst kvs)
      \<or> ''client_id'' \<notin> set (map fst kvs)"
    by auto
  have "fst (getCredentials_check path ?creds w2) =
     (if ''user'' \<notin> set (map fst kvs) then Raise (Exn KeyError (repr_str ''user''))
      else if ''pass'' \<notin> set (map fst kvs) then Raise (Exn KeyError (repr_str ''pass''))
      else Raise (Exn KeyError (repr_str ''client_id'')))"
    unfolding getCredentials_check_result using some keys missing by (simp del: set_map)
  then show "fst (getCredentials e path interface w) =
     Raise (Exn KeyError
              (repr_str (hd (filter (\<lambda>k. k \<notin> set (map fst kvs)) [''user'', ''pass'', ''client_id'']))))"
    unfolding run using missing by (simp del: set_map)
qed

text \<open>
  On the example machine: the file \<open>{"user": "p1234567"}\<close> and the tunnel
  \<open>tun0\<close>, with \<open>DEBUG\<close> off and on.
\<close>

theorem getCredentials_partial_KeyError_witness:
  "open_file example_env ''partial.json'' = Inr (Inr partial_json)
   \<and> json_loads example_env partial_json = Inr (PyDict [(''user'', PyStr ''p1234567'')])
   \<and> fst (getCredentials example_env ''partial.json'' ''tun0'' w0) =
       Raise (Exn KeyError ([sq] @ ''pass'' @ [sq]))
   \<and> fst (getCredentials example_env ''partial.json'' ''tun0'' w_debug) =
       Raise (Exn KeyError ([sq] @ ''pass'' @ [sq]))"
proof -
  let ?a = "[(''addr'', ''10.8.0.6''), (''netmask'', ''255.255.255.255''), (''peer'', ''10.8.0.5'')]"
  have key: "repr_str ''pass'' = [sq] @ ''pass'' @ [sq]"
    by (rule repr_str_plain) (simp add: plain_def printable_def sq_def)
  from getCredentials_partial_KeyError [of example_env "''partial.json''" partial_json
      "[(''user'', PyStr ''p1234567'')]" "''tun0''" ?a "''10.8.0.6''" w0]
    getCredentials_partial_KeyError [of example_env "''partial.json''" partial_json
      "[(''user'', PyStr ''p1234567'')]" "''tun0''" ?a "''10.8.0.6''" w_debug]
  show ?thesis
    by (simp add: example_open example_loads example_single key)
qed



subsection \<open>The API client\<close>




text \<open>
  A failure of the request or of the read that \<open>urllib\<close> raises as \<open>URLError\<close>
  or \<open>HTTPError\<close> (a name that does not resolve, a connection refused, a timeout
  while connecting or sending, a status outside 2xx) ends the process with exit code 6,
  the text of the cause printed. No value is returned.
\<close>

lemma forwardPort_URLError:
  assumes "urlopen e endpointURL (str_encode (urlencode e credentials)) timeout = Inl x
           \<or> (\<exists>connection.
                 urlopen e endpointURL (str_encode (urlencode e credentials)) timeout = Inr connection
                 \<and> conn_read connection = Inl x)"
    and "issubclass (exn_cls x) URLError \<or> issubclass (exn_cls x) HTTPError"
  shows "fst (forwardPort e credentials endpointURL timeout w) = Exit 6"
    and "exn_str x \<in> set (stdout (snd (forwardPort e credentials endpointURL timeout w)))"
proof -
  let ?w1 = "debugPrint (Some (''Posting to endpoint: '' @ [sq] @ endpointURL @ [sq])) True w"
  let ?w2 = "?w1\<lparr>stdout := stdout ?w1
                @ [''Error posting to endpoint URL: '' @ endpointURL, [], exn_str x, [],
                   ''Exiting with exit status: 6, forwardPort (): Error posting to API endpoint'']\<rparr>"
  from assms(2) have u: "issubclass (exn_cls x) URLError"
    using HTTPError_URLError by blast
  have "forwardPort_post e endpointURL (str_encode (urlencode e credentials)) timeout ?w1 =
      (Exit 6, ?w2)"
    using forwardPort_post_raised [OF assms(1), of ?w1] forwardPort_except_URLError [OF u]
    by simp
  then have run: "forwardPort e credentials endpointURL timeout w = (Exit 6, ?w2)"
    unfolding forwardPort_def Let_def by (simp add: bind_def)
  show "fst (forwardPort e credentials endpointURL timeout w) = Exit 6"
    unfolding run by simp
  show "exn_str x \<in> set (stdout (snd (forwardPort e credentials endpointURL timeout w)))"
    unfolding run by simp
qed

text \<open>
  Any other exception of the request or of the read is not caught by
  \<open>except (urllib.error.URLError, urllib.error.HTTPError)\<close> and leaves
  \<open>forwardPort\<close> as it is.
\<close>

lemma forwardPort_other:
  assumes "urlopen e endpointURL (str_encode (urlencode e credentials)) timeout = Inl x
           \<or> (\<exists>connection.
                 urlopen e endpointURL (str_encode (urlencode e credentials)) timeout = Inr connection
                 \<and> conn_read connection = Inl x)"
    and "\<not> issubclass (exn_cls x) URLError"
  shows "fst (forwardPort e credentials endpointURL timeout w) = Raise x"
proof -
  let ?w1 = "debugPrint (Some (''Posting to endpoint: '' @ [sq] @ endpointURL @ [sq])) True w"
  have "forwardPort_post e endpointURL (str_encode (urlencode e credentials)) timeout ?w1 =
      (Raise x, ?w1)"
    using forwardPort_post_raised [OF assms(1), of ?w1] forwardPort_except_other [OF assms(2)]
    by simp
  then show ?thesis
    unfolding forwardPort_def Let_def by (simp add: bind_def)
qed


text \<open>
  Claim C4 says that every transport failure during the POST, a timeout among them, ends
  the process with exit code 6. \<open>urllib\<close> wraps in \<open>URLError\<close> the errors of
  connecting and of sending the request only. A timeout while the answer is awaited or
  read is raised as \<open>socket.timeout\<close>, a \<open>TimeoutError\<close>, which is an
  \<open>OSError\<close> and no \<open>URLError\<close>: the handler does not catch it,
  \<open>handleError\<close> is not called, nothing is printed and no exit code 6 is given. On
  the example machine the endpoint \<open>stall\<close> accepts the request and sends no body;
  a connection refused and a status 404 do end with exit code 6.
\<close>

theorem forwardPort_read_timeout:
  "urlopen example_env ''https://api.example/stall'' (str_encode (urlencode example_env [(''user'', PyStr ''u'')])) 10 =
     Inr \<lparr>conn_read = Inl (Exn TimeoutError ''The read operation timed out''),
         content_charset = None\<rparr>
   \<and> forwardPort example_env [(''user'', PyStr ''u'')] ''https://api.example/stall'' 10 w0 =
       (Raise (Exn TimeoutError ''The read operation timed out''), w0)
   \<and> fst (forwardPort example_env [(''user'', PyStr ''u'')] ''https://nowhere.example/'' 10 w0) = Exit 6
   \<and> fst (forwardPort example_env [(''user'', PyStr ''u'')] ''https://api.example/gone'' 10 w0) = Exit 6"
proof -
  have t: "\<not> issubclass TimeoutError URLError" and h: "issubclass HTTPError URLError"
    and u: "issubclass URLError URLError"
    by (simp_all add: issubclass_def)
  have "fst (forwardPort example_env [(''user'', PyStr ''u'')] ''https://api.example/stall'' 10 w0) =
      Raise (Exn TimeoutError ''The read operation timed out'')"
    by (rule forwardPort_other [where x = "Exn TimeoutError ''The read operation timed out''"])
      (simp_all add: example_urlopen t)
  moreover have "snd (forwardPort example_env [(''user'', PyStr ''u'')] ''https://api.example/stall'' 10 w0) = w0"
    unfolding forwardPort_def Let_def forwardPort_post_def
    by (simp add: example_urlopen forwardPort_except_other t debugPrint_def w0_def bind_def)
  ultimately have "forwardPort example_env [(''user'', PyStr ''u'')] ''https://api.example/stall'' 10 w0 =
       (Raise (Exn TimeoutError ''The read operation timed out''), w0)"
    by (simp add: prod_eq_iff)
  moreover have "fst (forwardPort example_env [(''user'', PyStr ''u'')] ''https://nowhere.example/'' 10 w0) = Exit 6"
    by (rule forwardPort_URLError(1)
          [where x = "Exn URLError ''<urlopen error [Errno 111] Connection refused>''"])
      (simp_all add: example_urlopen u)
  moreover have "fst (forwardPort example_env [(''user'', PyStr ''u'')] ''https://api.example/gone'' 10 w0) = Exit 6"
    by (rule forwardPort_URLError(1) [where x = "Exn HTTPError ''HTTP Error 404: Not Found''"])
      (simp_all add: example_urlopen h)
  ultimately show ?thesis by (simp add: example_urlopen)
qed

end
